theory Spec2Isabelle
  imports Complex_Main
begin

section \<open>Numbers and errors\<close>

text \<open>
  Python numbers (\<open>int\<close> and \<open>float\<close>, mixed freely by the source) are modelled as
  \<^typ>\<open>real\<close>: integer values are the reals that are integers, and float rounding is
  idealised away. Exceptions are values of \<open>py_error\<close>.
\<close>

datatype py_error = KeyError | ValueError | ZeroDivisionError

text \<open>A statement that may raise, followed by the rest of the block.\<close>

definition py_bind :: "py_error + 'a \<Rightarrow> ('a \<Rightarrow> py_error + 'b) \<Rightarrow> py_error + 'b" where
  "py_bind m f = (case m of Inl e \<Rightarrow> Inl e | Inr x \<Rightarrow> f x)"

text \<open>
  True division \<open>x / y\<close>, which raises \<open>ZeroDivisionError\<close> on a zero divisor.
\<close>

definition py_truediv :: "real \<Rightarrow> real \<Rightarrow> py_error + real" where
  "py_truediv x y = (if y = 0 then Inl ZeroDivisionError else Inr (x / y))"

text \<open>
  \<open>round(x)\<close> of a float: the nearest integer, a tie going to the even neighbour.
\<close>

definition py_round :: "real \<Rightarrow> real" where
  "py_round x =
     (let f = \<lfloor>x\<rfloor>; d = x - of_int f
      in of_int (if d < 1 / 2 then f else if d > 1 / 2 then f + 1
                 else if even f then f else f + 1))"

text \<open>Python's \<open>x // 2\<close> (floor division).\<close>

definition py_floordiv :: "real \<Rightarrow> real \<Rightarrow> real" where
  "py_floordiv x y = of_int \<lfloor>x / y\<rfloor>"

section \<open>Skill progression (class Skillset)\<close>

text \<open>
  The rows of \<open>SKILL_PROGRESSION\<close>, with the columns the code reads
  (\<open>Level\<close>, \<open>Title\<close>, \<open>XP Required\<close>).
\<close>

record progression_row =
  Level :: nat
  Title :: string
  XP_Required :: real

definition SKILL_PROGRESSION :: "progression_row list" where
  "SKILL_PROGRESSION =
    [\<lparr>Level = 0, Title = ''Unawakened'', XP_Required = 0\<rparr>,
     \<lparr>Level = 1, Title = ''Novice'', XP_Required = 500\<rparr>,
     \<lparr>Level = 2, Title = ''Novice'', XP_Required = 1000\<rparr>,
     \<lparr>Level = 3, Title = ''Novice'', XP_Required = 2500\<rparr>,
     \<lparr>Level = 4, Title = ''Intermediate'', XP_Required = 5000\<rparr>,
     \<lparr>Level = 5, Title = ''Intermediate'', XP_Required = 12500\<rparr>,
     \<lparr>Level = 6, Title = ''Advanced'', XP_Required = 25000\<rparr>,
     \<lparr>Level = 7, Title = ''Advanced'', XP_Required = 50000\<rparr>,
     \<lparr>Level = 8, Title = ''Expert'', XP_Required = 125000\<rparr>,
     \<lparr>Level = 9, Title = ''Expert'', XP_Required = 250000\<rparr>,
     \<lparr>Level = 10, Title = ''Master'', XP_Required = 500000\<rparr>]"

text \<open>
  \<open>SKILL_PROGRESSION_DF.loc[SKILL_PROGRESSION_DF['Level'] == lvl, 'XP Required'].values\<close>:
  the \<open>XP Required\<close> column of the rows whose level is \<open>lvl\<close>.
\<close>

definition required_xp_of :: "nat \<Rightarrow> real list" where
  "required_xp_of lvl = map XP_Required (filter (\<lambda>r. Level r = lvl) SKILL_PROGRESSION)"

record Skillset =
  name :: string
  description :: string
  xp :: real
  level :: nat

definition Skillset_init :: "string \<Rightarrow> string \<Rightarrow> Skillset" where
  "Skillset_init n d = \<lparr>name = n, description = d, xp = 0, level = 0\<rparr>"

text \<open>
  The loop \<open>for lvl in range(1, 11)\<close> of \<open>get_level_for_xp\<close>, with its \<open>break\<close>:
  the second argument is what is left of the range, the third the variable \<open>level\<close>.
\<close>

fun level_loop :: "real \<Rightarrow> nat list \<Rightarrow> nat \<Rightarrow> nat" where
  "level_loop xp_amount [] lev = lev"
| "level_loop xp_amount (lvl # rest) lev =
     (case required_xp_of lvl of
        [] \<Rightarrow> lev
      | r # _ \<Rightarrow> if xp_amount \<ge> r then level_loop xp_amount rest lvl else lev)"

definition get_level_for_xp :: "real \<Rightarrow> nat" where
  "get_level_for_xp xp_amount = level_loop xp_amount [1..<11] 0"

definition increment_xp :: "Skillset \<Rightarrow> real \<Rightarrow> Skillset" where
  "increment_xp s d_xp =
     (let s1 = s\<lparr>xp := xp s + d_xp\<rparr>;
          new_level = get_level_for_xp (xp s1)
      in s1\<lparr>level := new_level\<rparr>)"

definition xp_to_next_level :: "Skillset \<Rightarrow> real option" where
  "xp_to_next_level s =
     (if level s \<ge> 10 then None
      else case required_xp_of (level s + 1) of
             [] \<Rightarrow> None
           | r # _ \<Rightarrow> Some (r - xp s))"

text \<open>The threshold table as the specification lists it, indexed by level.\<close>

definition spec_thresholds :: "real list" where
  "spec_thresholds = [0, 500, 1000, 2500, 5000, 12500, 25000, 50000, 125000, 250000, 500000]"

section \<open>Strings\<close>

text \<open>
  Python's \<open>str.isupper\<close>, \<open>str.islower\<close>, \<open>str.lower\<close> and \<open>str.upper\<close>, on ASCII text:
  a string is upper-case when it has a cased character and no lower-case one.
\<close>

definition upper_letters :: string where
  "upper_letters = ''ABCDEFGHIJKLMNOPQRSTUVWXYZ''"

definition lower_letters :: string where
  "lower_letters = ''abcdefghijklmnopqrstuvwxyz''"

definition is_upper_c :: "char \<Rightarrow> bool" where
  "is_upper_c c = (c \<in> set upper_letters)"

definition is_lower_c :: "char \<Rightarrow> bool" where
  "is_lower_c c = (c \<in> set lower_letters)"

definition lower_c :: "char \<Rightarrow> char" where
  "lower_c c = (case map_of (zip upper_letters lower_letters) c of Some l \<Rightarrow> l | None \<Rightarrow> c)"

definition upper_c :: "char \<Rightarrow> char" where
  "upper_c c = (case map_of (zip lower_letters upper_letters) c of Some u \<Rightarrow> u | None \<Rightarrow> c)"

definition py_isupper :: "string \<Rightarrow> bool" where
  "py_isupper s = (list_ex is_upper_c s \<and> \<not> list_ex is_lower_c s)"

definition py_islower :: "string \<Rightarrow> bool" where
  "py_islower s = (list_ex is_lower_c s \<and> \<not> list_ex is_upper_c s)"

definition py_lower :: "string \<Rightarrow> string" where
  "py_lower s = map lower_c s"

definition py_upper :: "string \<Rightarrow> string" where
  "py_upper s = map upper_c s"

section \<open>Dictionaries\<close>

text \<open>
  A Python \<open>dict\<close> is an association list in insertion order with distinct keys:
  \<open>dict_get\<close> is \<open>d.get(k)\<close>, \<open>dict_set\<close> is \<open>d[k] = v\<close>.
\<close>

definition dict_get :: "('k \<times> 'v) list \<Rightarrow> 'k \<Rightarrow> 'v option" where
  "dict_get d k = map_of d k"

fun dict_set :: "('k \<times> 'v) list \<Rightarrow> 'k \<Rightarrow> 'v \<Rightarrow> ('k \<times> 'v) list" where
  "dict_set [] k v = [(k, v)]"
| "dict_set ((k', v') # d) k v =
     (if k' = k then (k, v) # d else (k', v') # dict_set d k v)"

section \<open>Genetics (class Genetics)\<close>

definition MARKERS :: "string list" where
  "MARKERS = [''A'', ''D'', ''E'', ''I'', ''B'', ''M'']"

text \<open>The dictionary \<open>{"expressed": ..., "dormant": ...}\<close> that \<open>process_source\<close> returns.\<close>

record processed_source =
  src_expressed :: string
  src_dormant :: "string list"

text \<open>
  \<open>process_source\<close>. The value drawn by \<open>random.randrange(len(source_markers))\<close> is
  \<open>seed mod len\<close> for a seed given by the caller, so every index of the group can be
  drawn; on an empty group \<open>randrange(0)\<close> raises \<open>ValueError\<close>.
\<close>

definition process_source :: "bool \<Rightarrow> nat \<Rightarrow> string list \<Rightarrow> py_error + processed_source" where
  "process_source expression_defined seed source_markers =
     (if expression_defined then
        (case filter py_isupper source_markers of
           [] \<Rightarrow> Inl ValueError
         | expressed # _ \<Rightarrow>
             Inr \<lparr>src_expressed = expressed,
                  src_dormant = map py_lower (filter (\<lambda>m. m \<noteq> expressed) source_markers)\<rparr>)
      else if length source_markers = 0 then Inl ValueError
      else
        (let chosen_index = seed mod length source_markers
         in Inr \<lparr>src_expressed = source_markers ! chosen_index,
                 src_dormant = map (\<lambda>i. py_lower (source_markers ! i))
                                 (filter (\<lambda>i. i \<noteq> chosen_index) [0..<length source_markers])\<rparr>))"

record Genetics =
  expression_defined :: bool
  father :: "string list"
  mother :: "string list"
  planet :: "string list"
  father_processed :: processed_source
  mother_processed :: processed_source
  planet_processed :: processed_source
  expressed :: "string list"
  dormant :: "string list"

text \<open>\<open>Genetics.__init__\<close>; the three seeds are the three random draws, in call order.\<close>

definition Genetics_init ::
  "string list \<Rightarrow> string list \<Rightarrow> string list \<Rightarrow> bool \<Rightarrow> nat \<times> nat \<times> nat \<Rightarrow> py_error + Genetics" where
  "Genetics_init fa mo pl ed seeds =
     py_bind (process_source ed (fst seeds) fa) (\<lambda>fp.
     py_bind (process_source ed (fst (snd seeds)) mo) (\<lambda>mp.
     py_bind (process_source ed (snd (snd seeds)) pl) (\<lambda>pp.
       Inr \<lparr>expression_defined = ed, father = fa, mother = mo, planet = pl,
            father_processed = fp, mother_processed = mp, planet_processed = pp,
            expressed = [src_expressed fp, src_expressed mp, src_expressed pp],
            dormant = src_dormant fp @ src_dormant mp @ src_dormant pp\<rparr>)))"

definition get_markers :: "Genetics \<Rightarrow> string list" where
  "get_markers g = expressed g @ dormant g"

text \<open>
  A marker as the data model has it: one of the six letters of \<open>MARKERS\<close>, in upper or
  in lower case.
\<close>

definition is_marker :: "string \<Rightarrow> bool" where
  "is_marker m = (m \<in> set (MARKERS @ map py_lower MARKERS))"

section \<open>Attribute ranges\<close>

text \<open>The dictionary \<open>{"floor": ..., "ceiling": ..., "current": ...}\<close> of an ability or slider.\<close>

record AttributeRange =
  floor_r :: real
  ceiling_r :: real
  current :: real

definition boundary_check :: "AttributeRange \<Rightarrow> AttributeRange" where
  "boundary_check ability_range =
     (let r1 =
        (if floor_r ability_range < 0 \<and> ceiling_r ability_range < 1
           then ability_range\<lparr>floor_r := 0, ceiling_r := 1\<rparr>
         else if floor_r ability_range > 99 \<and> ceiling_r ability_range > 99
           then ability_range\<lparr>floor_r := 99, ceiling_r := 99\<rparr>
         else if floor_r ability_range < 0
           then ability_range\<lparr>ceiling_r := ceiling_r ability_range + floor_r ability_range,
                               floor_r := 0\<rparr>
         else if ceiling_r ability_range > 99
           then ability_range\<lparr>floor_r := floor_r ability_range + (ceiling_r ability_range - 99),
                               ceiling_r := 99\<rparr>
         else ability_range);
          r2 =
        (if floor_r r1 > ceiling_r r1
           then (let midpoint = py_floordiv (floor_r r1 + ceiling_r r1) 2
                 in r1\<lparr>floor_r := midpoint, ceiling_r := midpoint\<rparr>)
         else r1)
      in r2\<lparr>current := floor_r r2\<rparr>)"

section \<open>The somatic stage: size modifiers\<close>

text \<open>The dictionary \<open>{"Height": inches, "Weight": pounds}\<close>.\<close>

record body_size =
  Height :: real
  Weight :: real

definition NEUTRAL_HEIGHT_FEET :: real where
  "NEUTRAL_HEIGHT_FEET = 592 / 100"

definition NEUTRAL_WEIGHT :: real where
  "NEUTRAL_WEIGHT = 175"

definition NEUTRAL_BMI :: real where
  "NEUTRAL_BMI = 244 / 10"

text \<open>The three factors that \<open>compute_size_modifiers\<close> holds in local variables.\<close>

definition height_factor :: "real \<Rightarrow> real" where
  "height_factor height_feet = min (max ((height_feet - NEUTRAL_HEIGHT_FEET) * 13) (- 20)) 20"

definition weight_factor :: "real \<Rightarrow> real" where
  "weight_factor weight_pounds =
     (let weight_normalized = (weight_pounds - NEUTRAL_WEIGHT) / 100
      in min (max (weight_normalized * 20) (- 20)) 20)"

definition bmi_factor :: "real \<Rightarrow> real" where
  "bmi_factor bmi = (let bmi_diff = bmi - NEUTRAL_BMI in min (max (bmi_diff / (75 / 100)) (- 20)) 20)"

text \<open>The branch on the lower-cased ability name, given the three factors.\<close>

definition size_modifier_table :: "string \<Rightarrow> real \<Rightarrow> real \<Rightarrow> real \<Rightarrow> real \<times> real" where
  "size_modifier_table ability_name h w b =
     (if ability_name = ''strength'' then
        (py_round (h * (7 / 10) + max 0 w * (3 / 10)),
         py_round (h * (4 / 10) + w * (6 / 10)))
      else if ability_name = ''speed'' then
        (py_round (- max 0 w * (6 / 10) - \<bar>b\<bar> * (4 / 10)),
         py_round (min h 10 * (4 / 10) - max 0 w * (7 / 10) - \<bar>b\<bar> * (3 / 10)))
      else if ability_name = ''agility'' then
        (py_round (- max 0 h * (5 / 10) - max 0 b * (5 / 10)),
         py_round (- h * (4 / 10) - max 0 b * (7 / 10) + min 0 w * (3 / 10)))
      else if ability_name = ''reflexes'' then
        (py_round (- h * (8 / 10) - \<bar>b\<bar> * (2 / 10)),
         py_round (- h * (7 / 10) - \<bar>b\<bar> * (3 / 10) + min 0 w * (1 / 10)))
      else if ability_name = ''resilience'' then
        (py_round (min b 5 * (5 / 10) + min h 5 * (2 / 10) - max (w - 5) 0 * (4 / 10)),
         py_round (- \<bar>b - 2\<bar> * (4 / 10) + min h 8 * (3 / 10) - max (w - 5) 0 * (5 / 10)))
      else if ability_name = ''recovery'' then
        (py_round (- \<bar>b - 2\<bar> * (6 / 10) - \<bar>w\<bar> * (3 / 10)),
         py_round (- \<bar>b - 2\<bar> * (5 / 10) + min h 5 * (2 / 10) - \<bar>w\<bar> * (2 / 10)))
      else if ability_name = ''stealth'' then
        (py_round (- max 0 h * (6 / 10) - max 0 w * (4 / 10)),
         py_round (- h * (5 / 10) - w * (5 / 10)))
      else if ability_name = ''intimidation'' then
        (py_round (h * (6 / 10) + max 0 w * (4 / 10)),
         py_round (h * (7 / 10) + w * (3 / 10)))
      else (0, 0))"

text \<open>
  \<open>compute_size_modifiers\<close>: the pair (floor modifier, ceiling modifier). The BMI is
  computed, and its division can raise, before the test for the neutral point. The value
  rounded is the exact real value of the expression; the source rounds its float value,
  which can differ from it by rounding error, so that where the exact value is a tie
  (such as -13.5) the rounded integer of the source can be the other neighbour.
\<close>

definition compute_size_modifiers :: "body_size \<Rightarrow> string \<Rightarrow> py_error + real \<times> real" where
  "compute_size_modifiers sz ability_name =
     (let height_inches = Height sz;
          weight_pounds = Weight sz;
          height_feet = height_inches / 12;
          height_meters = height_feet * (3048 / 10000);
          weight_kg = weight_pounds * (453592 / 1000000)
      in py_bind (py_truediv weight_kg (height_meters ^ 2)) (\<lambda>bmi.
         if \<bar>height_feet - NEUTRAL_HEIGHT_FEET\<bar> < 1 / 100 \<and> \<bar>weight_pounds - NEUTRAL_WEIGHT\<bar> < 1
         then Inr (0, 0)
         else Inr (size_modifier_table (py_lower ability_name)
                     (height_factor height_feet) (weight_factor weight_pounds) (bmi_factor bmi))))"

definition size_alter_sliders :: "body_size \<Rightarrow> string \<Rightarrow> real" where
  "size_alter_sliders sz slider_name =
     (if slider_name = ''Inverse Metabolic Rate'' then
        (let height_inches = Height sz;
             weight_pounds = Weight sz;
             h_norm = (if height_inches \<le> 71 then (height_inches - 71) / (71 - 51)
                       else (height_inches - 71) / (90 - 71));
             h_norm = max (min h_norm 1) (- 1);
             w_norm = (if weight_pounds \<le> 175 then (weight_pounds - 175) / (175 - 70)
                       else (weight_pounds - 175) / (500 - 175));
             w_norm = max (min w_norm 1) (- 1);
             combined = (h_norm + w_norm) / 2
         in - combined * 20)
      else 0)"

section \<open>Configuration tables\<close>

text \<open>
  The value under \<open>"Skillsets"\<close> of a trait: a dictionary from skillset names to
  descriptions, or a list of names (the code accepts both).
\<close>

datatype skillsets_data = SkDict "(string \<times> string) list" | SkList "string list"

text \<open>An entry of \<open>TRAIT_MODIFIERS\<close>; \<open>"Skillsets"\<close> may be absent.\<close>

record trait_modifier =
  Abilities :: "(string \<times> real) list"
  Sliders :: "(string \<times> real) list"
  Skillsets :: "skillsets_data option"

text \<open>
  A value of \<open>SKILLSET_ABILITY_DEPENDENCE\<close>: a dictionary from ability names to weights,
  or a list of ability names.
\<close>

datatype ability_dependence = DepDict "(string \<times> real) list" | DepList "string list"

text \<open>
  The tables the pipeline reads. \<open>GENETIC_MODIFIERS\<close> is loaded from a file and the slider
  curves are interpolators of a library, so they are parameters; \<open>TRAIT_MODIFIERS\<close> and
  \<open>SKILLSET_ABILITY_DEPENDENCE\<close> are parameters as well, which covers the tables of the
  source. \<open>repr_dependence\<close> renders the default description of a skillset.
\<close>

record config =
  GENETIC_MODIFIERS :: "(string \<times> (string \<times> real \<times> real) list) list"
  TRAIT_MODIFIERS :: "(string \<times> trait_modifier) list"
  SKILLSET_ABILITY_DEPENDENCE :: "(string \<times> ability_dependence) list"
  repr_dependence :: "ability_dependence \<Rightarrow> string"
  lr_interp :: "real \<Rightarrow> real"
  imr_interp :: "real \<Rightarrow> real"
  mem_interp :: "real \<Rightarrow> real"

definition BASE_ABILITIES :: "string list" where
  "BASE_ABILITIES =
    [''Portaling'', ''Strategy'', ''Fishing'', ''Technique'', ''Willpower'',
     ''Resilience'', ''Recovery'', ''Strength'', ''Smithing'', ''Intimidation'',
     ''Medicine'', ''Perception'', ''Diplomacy'', ''Construction'', ''Agility'',
     ''Navigation'', ''Foraging'', ''Tracking'', ''Persuasion'', ''Reflexes'',
     ''Brewing'', ''Taming'', ''Farming'', ''Hunting'', ''Trade'',
     ''Stealth'', ''Crafting'', ''Deception'', ''Thieving'', ''Speed'']"

definition ESSENCE_ABILITIES :: "string list" where
  "ESSENCE_ABILITIES =
    [''Arcanum'', ''Symbiosis'', ''Durabilis'', ''Equilibrio'', ''Sapien'', ''Metamorphosis'']"

definition SLIDER_VALUES :: "string list" where
  "SLIDER_VALUES =
    [''Thinking Speed'', ''Learning Rate'', ''Inverse Metabolic Rate'',
     ''Inverse Sleep Cycle'', ''Memory'']"

text \<open>\<open>ABILITY_AGE_CURVES\<close>: kind, centre or peak, steepness or width.\<close>

definition ABILITY_AGE_CURVES :: "(string \<times> string \<times> real \<times> real) list" where
  "ABILITY_AGE_CURVES =
    [(''Strength'', ''bell'', 35, 35), (''Speed'', ''bell'', 25, 25),
     (''Agility'', ''bell'', 20, 30), (''Reflexes'', ''bell'', 28, 30),
     (''Resilience'', ''bell'', 25, 35), (''Recovery'', ''bell'', 17, 25),
     (''Technique'', ''bell'', 70, 35),
     (''Willpower'', ''bell'', 68, 40), (''Perception'', ''bell'', 83, 35),
     (''Strategy'', ''bell'', 119, 25), (''Stealth'', ''bell'', 50, 30),
     (''Persuasion'', ''bell'', 111, 40), (''Diplomacy'', ''bell'', 118, 60),
     (''Deception'', ''bell'', 63, 40), (''Intimidation'', ''bell'', 75, 60),
     (''Medicine'', ''bell'', 83, 43), (''Brewing'', ''bell'', 78, 38),
     (''Crafting'', ''bell'', 69, 34), (''Smithing'', ''bell'', 59, 33),
     (''Construction'', ''bell'', 77, 37), (''Foraging'', ''bell'', 87, 34),
     (''Farming'', ''bell'', 81, 42), (''Hunting'', ''bell'', 48, 36),
     (''Fishing'', ''bell'', 93, 41), (''Tracking'', ''bell'', 46, 28),
     (''Thieving'', ''bell'', 28, 20), (''Trade'', ''bell'', 86, 30),
     (''Navigation'', ''bell'', 77, 45), (''Portaling'', ''bell'', 99, 40),
     (''Taming'', ''bell'', 53, 35),
     (''Arcanum'', ''bell'', 110, 70), (''Symbiosis'', ''bell'', 90, 60),
     (''Durabilis'', ''bell'', 60, 50), (''Equilibrio'', ''bell'', 110, 65),
     (''Sapien'', ''bell'', 75, 55), (''Metamorphosis'', ''bell'', 50, 45)]"

section \<open>The player\<close>

record birth_date =
  Year :: int
  Month :: int

record Player =
  player_name :: string
  birthdate :: birth_date
  eye_color :: string
  size_p :: body_size
  genetics :: Genetics
  physical_trait :: string
  mental_trait :: string
  social_trait :: string
  livelihood_trait :: string
  travel_trait :: string
  essence_traits_choice :: "string list"
  abilities :: "(string \<times> AttributeRange) list"
  gameplay_sliders :: "(string \<times> AttributeRange) list"
  skill_init_overflow :: "(real \<times> string \<times> string) list"
  skillsets :: "Skillset list"

text \<open>
  The list \<open>[physical, mental, social, livelihood, travel] + essence_traits_choice\<close> that
  the trait stage and the skill seeding iterate over.
\<close>

definition selected_traits :: "Player \<Rightarrow> string list" where
  "selected_traits p =
     [physical_trait p, mental_trait p, social_trait p, livelihood_trait p, travel_trait p]
     @ essence_traits_choice p"

section \<open>The genetic stage\<close>

text \<open>One marker applied to one ability: the body of the inner loop.\<close>

definition genetic_step ::
  "(string \<times> (string \<times> real \<times> real) list) list \<Rightarrow> string \<Rightarrow> AttributeRange \<Rightarrow> string \<Rightarrow> AttributeRange" where
  "genetic_step gm ability_name ability_range marker =
     (let gene = py_upper marker
      in case dict_get gm ability_name of
           None \<Rightarrow> ability_range
         | Some row \<Rightarrow>
             (case dict_get row gene of
                None \<Rightarrow> ability_range
              | Some (floor_mod, ceil_mod) \<Rightarrow>
                  boundary_check
                    (if py_isupper marker
                     then ability_range\<lparr>floor_r := floor_r ability_range + floor_mod * 2,
                                        ceiling_r := ceiling_r ability_range + ceil_mod * 2\<rparr>
                     else ability_range\<lparr>floor_r := floor_r ability_range + floor_mod,
                                        ceiling_r := ceiling_r ability_range + ceil_mod\<rparr>)))"

definition genetically_alter_abilities :: "config \<Rightarrow> Player \<Rightarrow> Player" where
  "genetically_alter_abilities cfg p =
     p\<lparr>abilities :=
         map (\<lambda>(ability_name, ability_range).
                (ability_name,
                 foldl (genetic_step (GENETIC_MODIFIERS cfg) ability_name) ability_range
                   (get_markers (genetics p))))
             (abilities p)\<rparr>"

section \<open>The somatic stage\<close>

text \<open>The first loop of \<open>size_alter_abilities\<close>, over the items of \<open>abilities\<close>.\<close>

fun size_alter_loop ::
  "body_size \<Rightarrow> (string \<times> AttributeRange) list \<Rightarrow> py_error + (string \<times> AttributeRange) list" where
  "size_alter_loop sz [] = Inr []"
| "size_alter_loop sz ((ability_name, ability_range) # rest) =
     py_bind (compute_size_modifiers sz ability_name) (\<lambda>mods.
     py_bind (size_alter_loop sz rest) (\<lambda>rest'.
       Inr ((ability_name,
             boundary_check
               (ability_range\<lparr>floor_r := floor_r ability_range + fst mods,
                              ceiling_r := ceiling_r ability_range + snd mods\<rparr>)) # rest')))"

definition size_alter_abilities :: "Player \<Rightarrow> py_error + Player" where
  "size_alter_abilities p =
     py_bind (size_alter_loop (size_p p) (abilities p)) (\<lambda>abs'.
       Inr (p\<lparr>abilities := abs',
              gameplay_sliders :=
                map (\<lambda>(slider, r). (slider, r\<lparr>current := current r + size_alter_sliders (size_p p) slider\<rparr>))
                    (gameplay_sliders p)\<rparr>))"

section \<open>The trait stage\<close>

definition k_slider :: real where
  "k_slider = 30"

definition k_ability :: real where
  "k_ability = 10"

text \<open>
  The two additions to \<open>current\<close> and \<open>floor\<close>, and the clamp of the overflow branch
  (which sets \<open>current\<close> and \<open>floor\<close> to the ceiling).
\<close>

definition trait_add :: "AttributeRange \<Rightarrow> real \<Rightarrow> AttributeRange" where
  "trait_add r ability_mods =
     r\<lparr>current := current r + ability_mods * k_ability,
       floor_r := floor_r r + ability_mods * k_ability\<rparr>"

definition trait_clamp :: "AttributeRange \<Rightarrow> AttributeRange" where
  "trait_clamp r = r\<lparr>current := ceiling_r r, floor_r := ceiling_r r\<rparr>"

text \<open>
  The body of the loop over a trait's \<open>"Abilities"\<close>: an ability that the player does not
  have raises \<open>KeyError\<close>.
\<close>

definition trait_ability_step :: "string \<Rightarrow> string \<times> real \<Rightarrow> Player \<Rightarrow> py_error + Player" where
  "trait_ability_step trait entry p =
     (let ability_name = fst entry; ability_mods = snd entry
      in case dict_get (abilities p) ability_name of
           None \<Rightarrow> Inl KeyError
         | Some r \<Rightarrow>
             (let r1 = trait_add r ability_mods
              in if current r1 > ceiling_r r1
                 then Inr (p\<lparr>skill_init_overflow :=
                               skill_init_overflow p @ [(current r1 - ceiling_r r1, trait, ability_name)],
                             abilities :=
                               dict_set (abilities p) ability_name (boundary_check (trait_clamp r1))\<rparr>)
                 else Inr (p\<lparr>abilities := dict_set (abilities p) ability_name (boundary_check r1)\<rparr>)))"

text \<open>The body of the loop over a trait's \<open>"Sliders"\<close>.\<close>

definition trait_slider_step :: "string \<times> real \<Rightarrow> Player \<Rightarrow> py_error + Player" where
  "trait_slider_step entry p =
     (let slider_name = fst entry; slider_mod = snd entry
      in case dict_get (gameplay_sliders p) slider_name of
           None \<Rightarrow> Inl KeyError
         | Some r \<Rightarrow>
             Inr (p\<lparr>gameplay_sliders :=
                      dict_set (gameplay_sliders p) slider_name
                        (r\<lparr>current := current r + slider_mod * k_slider\<rparr>)\<rparr>))"

text \<open>A \<open>for\<close> loop whose body may raise: the first error ends it.\<close>

fun for_each :: "('a \<Rightarrow> 's \<Rightarrow> py_error + 's) \<Rightarrow> 'a list \<Rightarrow> 's \<Rightarrow> py_error + 's" where
  "for_each body [] s = Inr s"
| "for_each body (x # xs) s = py_bind (body x s) (for_each body xs)"

definition impose_trait :: "config \<Rightarrow> string \<Rightarrow> Player \<Rightarrow> py_error + Player" where
  "impose_trait cfg trait p =
     (case dict_get (TRAIT_MODIFIERS cfg) trait of
        None \<Rightarrow> Inr p
      | Some tm \<Rightarrow>
          py_bind (for_each (trait_ability_step trait) (Abilities tm) p)
            (for_each trait_slider_step (Sliders tm)))"

definition impose_trait_ability_modifiers :: "config \<Rightarrow> Player \<Rightarrow> py_error + Player" where
  "impose_trait_ability_modifiers cfg p = for_each (impose_trait cfg) (selected_traits p) p"

section \<open>The chronological stage\<close>

text \<open>\<open>get_date\<close> is the placeholder of the source: year 885, month 6, day 1.\<close>

definition get_date :: "int \<times> int \<times> int" where
  "get_date = (885, 6, 1)"

definition get_age :: "Player \<Rightarrow> int" where
  "get_age p =
     (case get_date of (current_year, current_month, current_day) \<Rightarrow>
        (let age_years = current_year - Year (birthdate p)
         in if current_month < Month (birthdate p) then age_years - 1 else age_years))"

text \<open>\<open>np.clip(x, lo, hi)\<close>.\<close>

definition np_clip :: "real \<Rightarrow> real \<Rightarrow> real \<Rightarrow> real" where
  "np_clip x lo hi = min (max x lo) hi"

definition compute_age_modifiers :: "Player \<Rightarrow> string \<Rightarrow> real" where
  "compute_age_modifiers p ability =
     (let age = real_of_int (get_age p);
          age_norm = np_clip ((age - 17) / (145 - 17)) 0 1;
          late = exp (- (8 / 100) * max (age - 120) 0);
          curve = (case dict_get ABILITY_AGE_CURVES ability of
                     None \<Rightarrow> (''sigmoid'', 1 / 2, 3)
                   | Some c \<Rightarrow> c);
          kind = fst curve; a = fst (snd curve); b = snd (snd curve);
          raw = (if kind = ''sigmoid''
                 then 1 / (1 + exp (- b * (age_norm - a)))
                 else exp (- ((age - a) ^ 2) / (2 * b ^ 2)))
      in raw * late)"

definition age_alter_abilities :: "Player \<Rightarrow> Player" where
  "age_alter_abilities p =
     p\<lparr>abilities :=
         map (\<lambda>(ability_name, ability_range).
                (ability_name,
                 ability_range\<lparr>current :=
                   floor_r ability_range
                   + compute_age_modifiers p ability_name
                     * (ceiling_r ability_range - floor_r ability_range)\<rparr>))
             (abilities p)\<rparr>"

definition compute_slider_age_modifiers :: "config \<Rightarrow> Player \<Rightarrow> string \<Rightarrow> real" where
  "compute_slider_age_modifiers cfg p slider_name =
     (let age = real_of_int (get_age p);
          a = np_clip age 0 145;
          md = (if slider_name = ''Learning Rate'' then lr_interp cfg a
                else if slider_name = ''Inverse Metabolic Rate'' then imr_interp cfg a
                else if slider_name = ''Inverse Sleep Cycle'' then a / 145
                else if slider_name = ''Memory'' \<or> slider_name = ''Thinking Speed'' then mem_interp cfg a
                else 1 / 2)
      in np_clip md 0 1)"

definition age_alter_sliders :: "config \<Rightarrow> Player \<Rightarrow> Player" where
  "age_alter_sliders cfg p =
     p\<lparr>gameplay_sliders :=
         map (\<lambda>(slider_name, slider_range).
                (slider_name,
                 slider_range\<lparr>current :=
                   floor_r slider_range
                   + compute_slider_age_modifiers cfg p slider_name
                     * (ceiling_r slider_range - floor_r slider_range)\<rparr>))
             (gameplay_sliders p)\<rparr>"

section \<open>initialize_abilities\<close>

definition baseline_abilities :: "(string \<times> AttributeRange) list" where
  "baseline_abilities =
     foldl (\<lambda>d ability. dict_set d ability \<lparr>floor_r = 0, ceiling_r = 1, current = 0\<rparr>) []
       (BASE_ABILITIES @ ESSENCE_ABILITIES)"

definition baseline_sliders :: "(string \<times> AttributeRange) list" where
  "baseline_sliders =
     foldl (\<lambda>d slider. dict_set d slider \<lparr>floor_r = 1, ceiling_r = 99, current = 50\<rparr>) []
       SLIDER_VALUES"

definition rebase_sliders :: "Player \<Rightarrow> Player" where
  "rebase_sliders p =
     p\<lparr>gameplay_sliders :=
         map (\<lambda>(slider, r). (slider, r\<lparr>floor_r := current r - 10, ceiling_r := current r + 10\<rparr>))
             (gameplay_sliders p)\<rparr>"

definition initialize_abilities :: "config \<Rightarrow> Player \<Rightarrow> py_error + Player" where
  "initialize_abilities cfg p =
     (let p0 = p\<lparr>abilities := baseline_abilities, gameplay_sliders := baseline_sliders\<rparr>;
          p1 = genetically_alter_abilities cfg p0
      in py_bind (size_alter_abilities p1) (\<lambda>p2.
         py_bind (impose_trait_ability_modifiers cfg p2) (\<lambda>p3.
           Inr (age_alter_abilities (rebase_sliders p3)))))"

section \<open>Skill seeding (initialize_skillsets)\<close>

definition TRAIT_XP :: real where
  "TRAIT_XP = 500000"

definition OVERFULL_XP_MULTIPLER :: real where
  "OVERFULL_XP_MULTIPLER = 2500"

text \<open>
  Step 1. The description of a skillset: the one of the first trait whose \<open>"Skillsets"\<close>
  is a dictionary with that name, else the default text.
\<close>

fun find_description :: "(string \<times> trait_modifier) list \<Rightarrow> string \<Rightarrow> string option" where
  "find_description [] skillset_name = None"
| "find_description ((trait, tm) # rest) skillset_name =
     (case Skillsets tm of
        Some (SkDict d) \<Rightarrow>
          (case dict_get d skillset_name of
             Some desc \<Rightarrow> Some desc
           | None \<Rightarrow> find_description rest skillset_name)
      | Some (SkList l) \<Rightarrow> find_description rest skillset_name
      | None \<Rightarrow> find_description rest skillset_name)"

definition create_skillsets :: "config \<Rightarrow> Skillset list" where
  "create_skillsets cfg =
     map (\<lambda>(skillset_name, deps).
            Skillset_init skillset_name
              (case find_description (TRAIT_MODIFIERS cfg) skillset_name of
                 Some desc \<Rightarrow> desc
               | None \<Rightarrow> ''Skillset based on abilities: '' @ repr_dependence cfg deps))
         (SKILLSET_ABILITY_DEPENDENCE cfg)"

definition skillset_names :: "skillsets_data \<Rightarrow> string list" where
  "skillset_names sd = (case sd of SkDict d \<Rightarrow> map fst d | SkList l \<Rightarrow> l)"

text \<open>The dictionary \<open>trait_to_skillsets\<close>, as its lookup.\<close>

definition trait_to_skillsets :: "config \<Rightarrow> string \<Rightarrow> string list option" where
  "trait_to_skillsets cfg trait =
     (case dict_get (TRAIT_MODIFIERS cfg) trait of
        None \<Rightarrow> None
      | Some tm \<Rightarrow> map_option skillset_names (Skillsets tm))"

text \<open>Step 2. \<open>ability_values\<close> and \<open>ability_weights\<close> of a skillset.\<close>

definition ability_values :: "Player \<Rightarrow> ability_dependence \<Rightarrow> real list" where
  "ability_values p deps =
     List.map_filter (\<lambda>ability. map_option current (dict_get (abilities p) ability))
       (case deps of DepDict d \<Rightarrow> map fst d | DepList l \<Rightarrow> l)"

definition ability_weights :: "Player \<Rightarrow> ability_dependence \<Rightarrow> (string \<times> real) list" where
  "ability_weights p deps =
     foldl (\<lambda>d entry. dict_set d (fst entry) (snd entry)) []
       (filter (\<lambda>entry. dict_get (abilities p) (fst entry) \<noteq> None)
          (case deps of DepDict d \<Rightarrow> d | DepList l \<Rightarrow> map (\<lambda>ability. (ability, 1)) l))"

definition normalized_score :: "Player \<Rightarrow> (string \<times> real) list \<Rightarrow> py_error + real" where
  "normalized_score p weights =
     (let total_weight = sum_list (map snd weights);
          weighted_sum =
            sum_list (List.map_filter
              (\<lambda>entry. map_option (\<lambda>r. current r * snd entry) (dict_get (abilities p) (fst entry)))
              weights)
      in py_bind (if total_weight > 0 then py_truediv weighted_sum total_weight else Inr 0)
           (\<lambda>weighted_mean. Inr (weighted_mean / 100)))"

text \<open>Step 3. Whether a trait lists a skillset, and the selected traits that do.\<close>

definition lists_skillset :: "config \<Rightarrow> string \<Rightarrow> string \<Rightarrow> bool" where
  "lists_skillset cfg trait skillset_name =
     (case dict_get (TRAIT_MODIFIERS cfg) trait of
        None \<Rightarrow> False
      | Some tm \<Rightarrow>
          (case Skillsets tm of
             None \<Rightarrow> False
           | Some (SkDict d) \<Rightarrow> dict_get d skillset_name \<noteq> None
           | Some (SkList l) \<Rightarrow> skillset_name \<in> set l))"

definition traits_with_skillset :: "config \<Rightarrow> Player \<Rightarrow> string \<Rightarrow> string list" where
  "traits_with_skillset cfg p skillset_name =
     filter (\<lambda>trait. lists_skillset cfg trait skillset_name) (selected_traits p)"

text \<open>\<open>len(TRAIT_MODIFIERS[trait]["Skillsets"])\<close>.\<close>

definition trait_skillset_count :: "config \<Rightarrow> string \<Rightarrow> py_error + nat" where
  "trait_skillset_count cfg trait =
     (case dict_get (TRAIT_MODIFIERS cfg) trait of
        None \<Rightarrow> Inl KeyError
      | Some tm \<Rightarrow>
          (case Skillsets tm of
             None \<Rightarrow> Inl KeyError
           | Some (SkDict d) \<Rightarrow> Inr (length d)
           | Some (SkList l) \<Rightarrow> Inr (length l)))"

definition learning_rate :: "Player \<Rightarrow> real" where
  "learning_rate p =
     (case dict_get (gameplay_sliders p) ''Learning Rate'' of
        None \<Rightarrow> 1 / 2
      | Some r \<Rightarrow> current r / 100)"

text \<open>
  The body of the loop \<open>for trait in traits_with_skillset\<close>. The amount \<open>xp_init\<close> is the
  exact real product; the source computes it in floats, so its xp can differ from this one
  by rounding error, and the level, which both derive from the stored xp with
  \<open>get_level_for_xp\<close>, can then differ where the exact xp is a threshold of the table.
\<close>

definition seed_from_trait :: "config \<Rightarrow> Player \<Rightarrow> real \<Rightarrow> string \<Rightarrow> Skillset \<Rightarrow> py_error + Skillset" where
  "seed_from_trait cfg p score trait skillset =
     py_bind (trait_skillset_count cfg trait) (\<lambda>trait_skillset_count.
     py_bind (if trait_skillset_count > 0 then py_truediv TRAIT_XP (real trait_skillset_count)
              else Inr 0) (\<lambda>xp_pool_per_skill.
       (let xp_init = learning_rate p * score * xp_pool_per_skill
        in Inr (increment_xp skillset xp_init))))"

text \<open>The body of the loop \<open>for skillset in self.skillsets\<close> (steps 2 and 3).\<close>

definition seed_skillset :: "config \<Rightarrow> Player \<Rightarrow> Skillset \<Rightarrow> py_error + Skillset" where
  "seed_skillset cfg p skillset =
     (case dict_get (SKILLSET_ABILITY_DEPENDENCE cfg) (name skillset) of
        None \<Rightarrow> Inl KeyError
      | Some deps \<Rightarrow>
          if ability_values p deps = [] then Inr skillset
          else py_bind (normalized_score p (ability_weights p deps)) (\<lambda>score.
                 for_each (seed_from_trait cfg p score)
                   (traits_with_skillset cfg p (name skillset)) skillset))"

fun map_raise :: "('a \<Rightarrow> py_error + 'b) \<Rightarrow> 'a list \<Rightarrow> py_error + 'b list" where
  "map_raise f [] = Inr []"
| "map_raise f (x # xs) =
     py_bind (f x) (\<lambda>y. py_bind (map_raise f xs) (\<lambda>ys. Inr (y # ys)))"

text \<open>Step 4. The dictionary \<open>trait_overflow\<close>: the overflow entries grouped by trait.\<close>

definition group_overflow :: "(real \<times> string \<times> string) list \<Rightarrow> (string \<times> (real \<times> string) list) list" where
  "group_overflow entries =
     foldl (\<lambda>d entry.
              (let overflow_value = fst entry; trait = fst (snd entry); ability = snd (snd entry)
               in dict_set d trait
                    ((case dict_get d trait of None \<Rightarrow> [] | Some l \<Rightarrow> l) @ [(overflow_value, ability)])))
       [] entries"

text \<open>The body of the loop over the items of \<open>trait_overflow\<close>.\<close>

definition apply_overflow ::
  "config \<Rightarrow> string \<times> (real \<times> string) list \<Rightarrow> Skillset list \<Rightarrow> py_error + Skillset list" where
  "apply_overflow cfg item sks =
     (let trait = fst item; overflow_entries = snd item;
          in_trait = (\<lambda>skillset. case trait_to_skillsets cfg trait of
                                   None \<Rightarrow> False
                                 | Some names \<Rightarrow> name skillset \<in> set names);
          trait_skillsets = filter in_trait sks
      in if trait_skillsets = [] then Inr sks
         else
           (let total_overflow = sum_list (map fst overflow_entries)
            in py_bind (py_truediv (total_overflow * OVERFULL_XP_MULTIPLER)
                          (real (length trait_skillsets))) (\<lambda>overflow_xp_per_skillset.
                 Inr (map (\<lambda>skillset. if in_trait skillset
                                        then increment_xp skillset overflow_xp_per_skillset
                                        else skillset) sks))))"

definition initialize_skillsets :: "config \<Rightarrow> Player \<Rightarrow> py_error + Player" where
  "initialize_skillsets cfg p =
     (let p1 = p\<lparr>skillsets := skillsets p @ create_skillsets cfg\<rparr>
      in py_bind (map_raise (seed_skillset cfg p1) (skillsets p1)) (\<lambda>seeded.
         py_bind (for_each (apply_overflow cfg) (group_overflow (skill_init_overflow p1)) seeded)
           (\<lambda>sks. Inr (p1\<lparr>skillsets := sks\<rparr>))))"

section \<open>Construction\<close>

text \<open>\<open>Player.__init__\<close>.\<close>

definition Player_init ::
  "config \<Rightarrow> string \<Rightarrow> Genetics \<Rightarrow> string \<Rightarrow> string \<Rightarrow> string \<Rightarrow> string \<Rightarrow> string \<Rightarrow> string list
     \<Rightarrow> body_size \<Rightarrow> birth_date \<Rightarrow> string \<Rightarrow> py_error + Player" where
  "Player_init cfg nm g physical mental social livelihood travel essence sz bd eye =
     (let p = \<lparr>player_name = nm, birthdate = bd, eye_color = eye, size_p = sz, genetics = g,
               physical_trait = physical, mental_trait = mental, social_trait = social,
               livelihood_trait = livelihood, travel_trait = travel,
               essence_traits_choice = essence,
               abilities = [], gameplay_sliders = [], skill_init_overflow = [], skillsets = []\<rparr>
      in py_bind (initialize_abilities cfg p) (\<lambda>p1.
         py_bind (initialize_skillsets cfg p1) (\<lambda>p2.
           Inr (age_alter_sliders cfg p2))))"

text \<open>
  The two constructor calls of \<open>create_character\<close>: the genetics first, then the player
  built from them.
\<close>

definition create_player ::
  "config \<Rightarrow> string \<Rightarrow> string list \<Rightarrow> string list \<Rightarrow> string list \<Rightarrow> bool \<Rightarrow> nat \<times> nat \<times> nat
     \<Rightarrow> string \<Rightarrow> string \<Rightarrow> string \<Rightarrow> string \<Rightarrow> string \<Rightarrow> string list
     \<Rightarrow> body_size \<Rightarrow> birth_date \<Rightarrow> string \<Rightarrow> py_error + Player" where
  "create_player cfg nm fa mo pl ed seeds physical mental social livelihood travel essence sz bd eye =
     py_bind (Genetics_init fa mo pl ed seeds) (\<lambda>g.
       Player_init cfg nm g physical mental social livelihood travel essence sz bd eye)"

section \<open>Example inputs\<close>

text \<open>
  A small configuration with the Juggernaut trait and two of its skillsets as the source
  tables have them (the other selected traits are absent from it and are skipped), one
  genetic modifier row, and constant slider curves.
\<close>

definition example_config :: config where
  "example_config =
     \<lparr>GENETIC_MODIFIERS = [(''Strength'', [(''D'', (1, 3))])],
      TRAIT_MODIFIERS =
        [(''Juggernaut'',
          \<lparr>Abilities = [(''Strength'', 7 / 10), (''Resilience'', 1 / 5), (''Willpower'', 1 / 10)],
           Sliders = [],
           Skillsets = Some (SkDict [(''Unstoppable Charge'', ''Rush forward''),
                                     (''Ironhide'', ''Hardens your physical form'')])\<rparr>)],
      SKILLSET_ABILITY_DEPENDENCE =
        [(''Unstoppable Charge'',
          DepDict [(''Strength'', 2 / 5), (''Speed'', 3 / 10), (''Agility'', 3 / 20),
                   (''Resilience'', 3 / 20)]),
         (''Ironhide'',
          DepDict [(''Resilience'', 1 / 2), (''Recovery'', 3 / 10), (''Strength'', 1 / 5)])],
      repr_dependence = (\<lambda>deps. ''''),
      lr_interp = (\<lambda>a. 1 / 2),
      imr_interp = (\<lambda>a. 1 / 2),
      mem_interp = (\<lambda>a. 1 / 2)\<rparr>"

text \<open>The genetics built from the groups Dae, Ibm, Mmm with the expression preset.\<close>

definition example_genetics :: Genetics where
  "example_genetics =
     \<lparr>expression_defined = True,
      father = [''D'', ''a'', ''e''], mother = [''I'', ''b'', ''m''], planet = [''M'', ''m'', ''m''],
      father_processed = \<lparr>src_expressed = ''D'', src_dormant = [''a'', ''e'']\<rparr>,
      mother_processed = \<lparr>src_expressed = ''I'', src_dormant = [''b'', ''m'']\<rparr>,
      planet_processed = \<lparr>src_expressed = ''M'', src_dormant = [''m'', ''m'']\<rparr>,
      expressed = [''D'', ''I'', ''M''],
      dormant = [''a'', ''e'', ''b'', ''m'', ''m'', ''m'']\<rparr>"

text \<open>
  A player before \<open>initialize_abilities\<close>, and the same player with three abilities in
  a state the trait stage can find them in.
\<close>

definition example_player :: Player where
  "example_player =
     \<lparr>player_name = ''Ada'', birthdate = \<lparr>Year = 850, Month = 3\<rparr>, eye_color = ''grey'',
      size_p = \<lparr>Height = 71, Weight = 175\<rparr>, genetics = example_genetics,
      physical_trait = ''Juggernaut'', mental_trait = ''Strategist'', social_trait = ''Diplomat'',
      livelihood_trait = ''Artisan'', travel_trait = ''Wayfinder'',
      essence_traits_choice = [''Ironclad Will'', ''Memory Palace'', ''Beastkin'', ''Runic Aegis''],
      abilities = [], gameplay_sliders = [], skill_init_overflow = [], skillsets = []\<rparr>"


section \<open>Well-formed genetic input\<close>

text \<open>
  A group as the data model has it: exactly three markers; with the expression preset
  exactly one of them upper-case, otherwise (random expression) all given in upper case.
\<close>

definition well_formed_group :: "bool \<Rightarrow> string list \<Rightarrow> bool" where
  "well_formed_group ed g =
     (length g = 3 \<and> list_all is_marker g
      \<and> (if ed then length (filter py_isupper g) = 1 else list_all py_isupper g))"

text \<open>
  The groups on which \<open>process_source\<close> raises: with the expression preset, a group with no
  upper-case marker; with random expression, an empty group.
\<close>

definition rejected_group :: "bool \<Rightarrow> string list \<Rightarrow> bool" where
  "rejected_group ed g = (if ed then filter py_isupper g = [] else g = [])"

section \<open>The age curves as the specification words them\<close>

text \<open>The universal late-life decay \<open>exp(-0.08 * max(age - 120, 0))\<close>.\<close>

definition spec_late :: "real \<Rightarrow> real" where
  "spec_late age = exp (- (8 / 100) * max (age - 120) 0)"

text \<open>The bell family with peak \<open>mu\<close> and the given width.\<close>

definition spec_bell :: "real \<Rightarrow> real \<Rightarrow> real \<Rightarrow> real" where
  "spec_bell mu width age = exp (- ((age - mu) ^ 2) / (2 * width ^ 2))"

text \<open>The sigmoid family over the age normalised to the span 17..145.\<close>

definition spec_sigmoid :: "real \<Rightarrow> real \<Rightarrow> real \<Rightarrow> real" where
  "spec_sigmoid centre steep age =
     (let age_norm = min (max ((age - 17) / (145 - 17)) 0) 1
      in 1 / (1 + exp (- steep * (age_norm - centre))))"

text \<open>
  The raw value of an ability: its curve family from the table, the sigmoid with centre
  0.50 and steepness 3.0 when the ability is not listed.
\<close>

definition spec_raw :: "string \<Rightarrow> real \<Rightarrow> real" where
  "spec_raw ability age =
     (case map_of ABILITY_AGE_CURVES ability of
        None \<Rightarrow> spec_sigmoid (1 / 2) 3 age
      | Some (kind, a, b) \<Rightarrow>
          if kind = ''bell'' then spec_bell a b age else spec_sigmoid a b age)"

text \<open>An ability range as the somatic stage leaves it unchanged: normalized and in range.\<close>

definition in_range :: "AttributeRange \<Rightarrow> bool" where
  "in_range r = (0 \<le> floor_r r \<and> floor_r r \<le> ceiling_r r \<and> ceiling_r r \<le> 99
                 \<and> current r = floor_r r)"

definition neutral_size :: body_size where
  "neutral_size = \<lparr>Height = 71, Weight = 175\<rparr>"

section \<open>The seeding formulas as the specification words them\<close>

text \<open>
  \<open>baseXPPerSkill\<close>: 500000 divided by the trait's skillset count, and nothing for a
  trait with no skillset.
\<close>

definition spec_base_xp :: "nat \<Rightarrow> real" where
  "spec_base_xp n = (if n = 0 then 0 else 500000 / real n)"

text \<open>
  \<open>normalizedScore\<close>: the weighted mean of the current values of the skillset's abilities
  that the character has, over 100; 0 when the weights do not sum to a positive number.
\<close>

definition spec_normalized_score :: "Player \<Rightarrow> (string \<times> real) list \<Rightarrow> real" where
  "spec_normalized_score p weights =
     (let present = filter (\<lambda>entry. map_of (abilities p) (fst entry) \<noteq> None) weights;
          total = (\<Sum>entry\<leftarrow>weights. snd entry);
          weighted = (\<Sum>entry\<leftarrow>present. current (the (map_of (abilities p) (fst entry))) * snd entry)
      in (if total > 0 then weighted / total else 0) / 100)"

text \<open>The number of skillsets a trait lists (0 for a trait with no skillset entry).\<close>

definition listed_count :: "config \<Rightarrow> string \<Rightarrow> nat" where
  "listed_count cfg trait = (case trait_skillset_count cfg trait of Inr n \<Rightarrow> n | Inl e \<Rightarrow> 0)"


section \<open>Invariants of the pipeline\<close>

text \<open>All ability ranges of a player have floor \<open>\<le>\<close> ceiling.\<close>

definition ordered_abilities :: "Player \<Rightarrow> bool" where
  "ordered_abilities p = list_all (\<lambda>(ability_name, r). floor_r r \<le> ceiling_r r) (abilities p)"

text \<open>The names of the abilities and of the sliders, in dictionary order.\<close>

definition ability_names :: "Player \<Rightarrow> string list" where
  "ability_names p = map fst (abilities p)"

definition slider_names :: "Player \<Rightarrow> string list" where
  "slider_names p = map fst (gameplay_sliders p)"

text \<open>
  The selected traits refer only to abilities and sliders that exist, so that the trait
  stage raises no \<open>KeyError\<close>.
\<close>

definition traits_known :: "config \<Rightarrow> string list \<Rightarrow> bool" where
  "traits_known cfg traits =
     list_all (\<lambda>trait. case dict_get (TRAIT_MODIFIERS cfg) trait of
                 None \<Rightarrow> True
               | Some tm \<Rightarrow>
                   list_all (\<lambda>entry. fst entry \<in> set (BASE_ABILITIES @ ESSENCE_ABILITIES)) (Abilities tm)
                   \<and> list_all (\<lambda>entry. fst entry \<in> set SLIDER_VALUES) (Sliders tm))
       traits"

section \<open>The overflow redistribution as the specification words it\<close>




section \<open>Properties of the skill progression\<close>

lemma range_1_11: "[1..<11] = [1, 2, 3, 4, 5, 6, 7, 8, 9, 10::nat]"
  by (simp add: upt_rec)

lemma get_level_for_xp_cases:
  "get_level_for_xp x =
     (if x < 500 then 0 else if x < 1000 then 1 else if x < 2500 then 2
      else if x < 5000 then 3 else if x < 12500 then 4 else if x < 25000 then 5
      else if x < 50000 then 6 else if x < 125000 then 7 else if x < 250000 then 8
      else if x < 500000 then 9 else 10)"
  unfolding get_level_for_xp_def range_1_11
  by (simp add: required_xp_of_def SKILL_PROGRESSION_def)

lemma get_level_for_xp_le_10: "get_level_for_xp x \<le> 10"
  by (simp add: get_level_for_xp_cases)

lemma get_level_for_xp_mono: "x \<le> y \<Longrightarrow> get_level_for_xp x \<le> get_level_for_xp y"
  by (simp add: get_level_for_xp_cases)

lemma le_10_cases:
  "(l::nat) \<le> 10 \<Longrightarrow>
     l = 0 \<or> l = 1 \<or> l = 2 \<or> l = 3 \<or> l = 4 \<or> l = 5 \<or> l = 6 \<or> l = 7 \<or> l = 8 \<or> l = 9 \<or> l = 10"
  by arith

lemma spec_threshold_iff:
  assumes "0 \<le> x" and "l \<le> 10"
  shows "spec_thresholds ! l \<le> x \<longleftrightarrow> l \<le> get_level_for_xp x"
  using le_10_cases [OF assms(2)] assms(1)
  by (auto simp add: spec_thresholds_def get_level_for_xp_cases)


text \<open>
  C3. For every non-negative xp amount, \<open>get_level_for_xp\<close> returns the highest level in
  0..10 whose threshold in the table (0, 500, 1000, 2500, 5000, 12500, 25000, 50000, 125000,
  250000, 500000) is at most the amount. The table of the code is that table; a fresh
  skillset given 500 xp has level at least 1, one given 499 xp has level 0, and the level
  never decreases when the xp grows.
\<close>

theorem get_level_for_xp_highest_threshold:
  assumes "0 \<le> x"
  shows "map XP_Required SKILL_PROGRESSION = spec_thresholds
    \<and> map Level SKILL_PROGRESSION = [0..<11]
    \<and> get_level_for_xp x = Max {l. l \<le> 10 \<and> spec_thresholds ! l \<le> x}
    \<and> level (increment_xp (Skillset_init n d) 500) \<ge> 1
    \<and> level (increment_xp (Skillset_init n d) 499) = 0
    \<and> (\<forall>y. x \<le> y \<longrightarrow> get_level_for_xp x \<le> get_level_for_xp y)"
proof -
  let ?g = "get_level_for_xp x"
  have g10: "?g \<le> 10" by (rule get_level_for_xp_le_10)
  have "{l. l \<le> 10 \<and> spec_thresholds ! l \<le> x} = {l. l \<le> ?g}"
    using spec_threshold_iff [OF assms] g10 by auto
  then have "Max {l. l \<le> 10 \<and> spec_thresholds ! l \<le> x} = Max {..?g}"
    by (simp add: atMost_def)
  moreover have "Max {..?g} = ?g"
    by (rule Max_eqI) simp_all
  ultimately have highest: "?g = Max {l. l \<le> 10 \<and> spec_thresholds ! l \<le> x}"
    by simp
  have table: "map XP_Required SKILL_PROGRESSION = spec_thresholds"
    by (simp add: SKILL_PROGRESSION_def spec_thresholds_def)
  have levels: "map Level SKILL_PROGRESSION = [0..<11]"
    by (simp add: SKILL_PROGRESSION_def upt_rec)
  have fresh: "level (increment_xp (Skillset_init n d) 500) \<ge> 1"
    "level (increment_xp (Skillset_init n d) 499) = 0"
    by (simp_all add: increment_xp_def Skillset_init_def get_level_for_xp_cases)
  from table levels highest fresh get_level_for_xp_mono show ?thesis
    by blast
qed

theorem get_level_for_xp_highest_threshold_witness:
  "(0::real) \<le> 750
   \<and> get_level_for_xp 750 = Max {l. l \<le> 10 \<and> spec_thresholds ! l \<le> 750}
   \<and> get_level_for_xp 750 = 1
   \<and> level (increment_xp (Skillset_init ''Brace'' ''posture'') 499) = 0"
  using get_level_for_xp_highest_threshold [of 750 "''Brace''" "''posture''"]
  by (simp add: get_level_for_xp_cases)

text \<open>
  C8, as stated, at a concrete input: a fresh skillset given the delta -100 ends with
  xp -100, which is negative and below the xp before.
\<close>

theorem increment_xp_negative_delta_counterexample:
  "xp (increment_xp (Skillset_init ''Brace'' ''posture'') (- 100)) = - 100
   \<and> \<not> (xp (Skillset_init ''Brace'' ''posture'')
          \<le> xp (increment_xp (Skillset_init ''Brace'' ''posture'') (- 100)))
   \<and> \<not> (0 \<le> xp (increment_xp (Skillset_init ''Brace'' ''posture'') (- 100)))"
  by (simp add: increment_xp_def Skillset_init_def)

text \<open>
  C8, amended. \<open>increment_xp\<close> adds the delta to xp whatever its sign. For a non-negative
  delta the xp does not decrease, and stays non-negative when it was. For every delta the
  level is the one \<open>get_level_for_xp\<close> gives for the total xp, it lies in 0..10, and it is
  10 whenever the total is at least the level-10 threshold 500000.
\<close>

theorem increment_xp_level_and_xp:
  "xp (increment_xp s d) = xp s + d
   \<and> level (increment_xp s d) = get_level_for_xp (xp s + d)
   \<and> level (increment_xp s d) \<le> 10
   \<and> (0 \<le> d \<longrightarrow> xp s \<le> xp (increment_xp s d))
   \<and> (0 \<le> d \<and> 0 \<le> xp s \<longrightarrow> 0 \<le> xp (increment_xp s d))
   \<and> (500000 \<le> xp s + d \<longrightarrow> level (increment_xp s d) = 10)"
  by (simp add: increment_xp_def Let_def get_level_for_xp_cases)

theorem increment_xp_level_and_xp_witness:
  "(0::real) \<le> 600000 \<and> 0 \<le> xp (Skillset_init ''Brace'' ''posture'')
   \<and> xp (increment_xp (Skillset_init ''Brace'' ''posture'') 600000) = 600000
   \<and> level (increment_xp (Skillset_init ''Brace'' ''posture'') 600000) = 10"
  using increment_xp_level_and_xp [of "Skillset_init ''Brace'' ''posture''" 600000]
  by (simp add: Skillset_init_def)

section \<open>Properties of boundary normalization\<close>

lemma boundary_check_floor_le_ceiling:
  "floor_r (boundary_check r) \<le> ceiling_r (boundary_check r)"
  by (simp add: boundary_check_def Let_def)

lemma boundary_check_current: "current (boundary_check r) = floor_r (boundary_check r)"
  by (simp add: boundary_check_def Let_def)

text \<open>
  C1, at a concrete input. The range with floor -3 and ceiling 2 (integers) takes the
  third branch, which moves the ceiling to -1 and the floor to 0; the midpoint collapse
  then sets both to -1, below 0. The range with floor 50 and ceiling 200 takes the fourth
  branch and collapses to 125, above 99. The first range is the one the somatic stage
  hands to \<open>boundary_check\<close> for Speed (baseline floor 0, ceiling 1) of a character
  81 inches tall weighing 167 pounds, whose size modifiers are -3 and +1.
\<close>

theorem boundary_check_leaves_range:
  "boundary_check \<lparr>floor_r = - 3, ceiling_r = 2, current = 0\<rparr>
     = \<lparr>floor_r = - 1, ceiling_r = - 1, current = - 1\<rparr>
   \<and> boundary_check \<lparr>floor_r = 50, ceiling_r = 200, current = 50\<rparr>
     = \<lparr>floor_r = 125, ceiling_r = 125, current = 125\<rparr>
   \<and> compute_size_modifiers \<lparr>Height = 81, Weight = 167\<rparr> ''Speed'' = Inr (- 3, 1)"
proof -
  have a: "boundary_check \<lparr>floor_r = - 3, ceiling_r = 2, current = 0\<rparr>
     = \<lparr>floor_r = - 1, ceiling_r = - 1, current = - 1\<rparr>"
    by (simp add: boundary_check_def Let_def py_floordiv_def floor_eq_iff)
  have b: "boundary_check \<lparr>floor_r = 50, ceiling_r = 200, current = 50\<rparr>
     = \<lparr>floor_r = 125, ceiling_r = 125, current = 125\<rparr>"
    by (simp add: boundary_check_def Let_def py_floordiv_def)
  have c: "compute_size_modifiers \<lparr>Height = 81, Weight = 167\<rparr> ''Speed'' = Inr (- 3, 1)"
    by (simp add: compute_size_modifiers_def Let_def py_truediv_def py_bind_def
        NEUTRAL_HEIGHT_FEET_def NEUTRAL_WEIGHT_def NEUTRAL_BMI_def size_modifier_table_def
        height_factor_def weight_factor_def bmi_factor_def py_lower_def lower_c_def
        upper_letters_def lower_letters_def py_round_def floor_eq_iff power2_eq_square)
  from a b c show ?thesis by simp
qed

section \<open>Properties of the trait stage\<close>

lemma dict_get_dict_set_same: "dict_get (dict_set d k v) k = Some v"
  by (induction d) (auto simp add: dict_get_def)




section \<open>Properties of the genetics\<close>

lemma is_marker_cases:
  "is_marker m \<Longrightarrow> m \<in> {''A'', ''D'', ''E'', ''I'', ''B'', ''M'', ''a'', ''d'', ''e'', ''i'', ''b'', ''m''}"
  by (simp add: is_marker_def MARKERS_def py_lower_def lower_c_def upper_letters_def lower_letters_def)

lemma is_marker_lower: "is_marker m \<Longrightarrow> py_islower (py_lower m)"
  by (drule is_marker_cases)
     (auto simp add: py_islower_def py_lower_def lower_c_def is_lower_c_def is_upper_c_def
        upper_letters_def lower_letters_def)

lemma isupper_not_islower: "py_isupper m \<Longrightarrow> \<not> py_islower m"
  by (simp add: py_isupper_def py_islower_def)

lemma length3: "length g = 3 \<Longrightarrow> \<exists>x y z. g = [x, y, z]"
  by (cases g; simp; cases "tl g"; simp; cases "tl (tl g)"; auto)

lemma process_source_wf:
  assumes "well_formed_group ed g"
  shows "\<exists>r. process_source ed s g = Inr r \<and> py_isupper (src_expressed r)
           \<and> src_expressed r \<in> set g \<and> length (src_dormant r) = 2
           \<and> list_all py_islower (src_dormant r)"
proof -
  from assms have "length g = 3" by (simp add: well_formed_group_def)
  then obtain x y z where g: "g = [x, y, z]"
    using length3 by blast
  from assms g have mk: "is_marker x" "is_marker y" "is_marker z"
    by (simp_all add: well_formed_group_def)
  note low = mk [THEN is_marker_lower]
  show ?thesis
  proof (cases ed)
    case True
    with assms g have one: "length (filter py_isupper [x, y, z]) = 1"
      by (simp add: well_formed_group_def)
    then show ?thesis
      using True g low
      by (auto simp add: process_source_def split: if_splits)
  next
    case False
    with assms g have up: "py_isupper x" "py_isupper y" "py_isupper z"
      by (simp_all add: well_formed_group_def)
    have "s mod 3 = 0 \<or> s mod 3 = 1 \<or> s mod 3 = 2" by arith
    then show ?thesis
      using False g low up
      by (auto simp add: process_source_def Let_def upt_rec)
  qed
qed


lemma Genetics_init_wf:
  assumes "well_formed_group ed fa" and "well_formed_group ed mo" and "well_formed_group ed pl"
  shows "\<exists>g. Genetics_init fa mo pl ed seeds = Inr g
     \<and> length (expressed g) = 3 \<and> length (dormant g) = 6
     \<and> list_all py_isupper (expressed g) \<and> list_all py_islower (dormant g)
     \<and> expressed g ! 0 \<in> set fa \<and> expressed g ! 1 \<in> set mo \<and> expressed g ! 2 \<in> set pl"
proof -
  from process_source_wf [OF assms(1), of "fst seeds"] obtain fp where
    fp: "process_source ed (fst seeds) fa = Inr fp" "py_isupper (src_expressed fp)"
        "src_expressed fp \<in> set fa" "length (src_dormant fp) = 2"
        "list_all py_islower (src_dormant fp)"
    by blast
  from process_source_wf [OF assms(2), of "fst (snd seeds)"] obtain mp where
    mp: "process_source ed (fst (snd seeds)) mo = Inr mp" "py_isupper (src_expressed mp)"
        "src_expressed mp \<in> set mo" "length (src_dormant mp) = 2"
        "list_all py_islower (src_dormant mp)"
    by blast
  from process_source_wf [OF assms(3), of "snd (snd seeds)"] obtain pp where
    pp: "process_source ed (snd (snd seeds)) pl = Inr pp" "py_isupper (src_expressed pp)"
        "src_expressed pp \<in> set pl" "length (src_dormant pp) = 2"
        "list_all py_islower (src_dormant pp)"
    by blast
  show ?thesis
    using fp mp pp by (simp add: Genetics_init_def py_bind_def)
qed

lemma filter_all: "list_all P xs \<Longrightarrow> filter P xs = xs"
  by (induction xs) auto

lemma filter_none: "list_all (\<lambda>x. \<not> P x) xs \<Longrightarrow> filter P xs = []"
  by (induction xs) auto

lemma islower_not_isupper: "py_islower m \<Longrightarrow> \<not> py_isupper m"
  by (simp add: py_isupper_def py_islower_def)

lemma all_upper_none_lower:
  "list_all py_isupper xs \<Longrightarrow> list_all (\<lambda>m. \<not> py_islower m) xs"
  by (induction xs) (auto simp add: isupper_not_islower)

lemma all_lower_none_upper:
  "list_all py_islower xs \<Longrightarrow> list_all (\<lambda>m. \<not> py_isupper m) xs"
  by (induction xs) (auto simp add: islower_not_isupper)

text \<open>
  C6. For well-formed groups (three markers each; with the expression preset exactly one
  upper-case marker per group, with random expression upper-case markers), under both
  construction modes and whatever the random draws, the construction succeeds and
  \<open>get_markers\<close> returns the three expressed markers followed by the six dormant ones:
  nine entries, of which exactly three are upper-case, one taken from each group, and
  six are lower-case.
\<close>

theorem get_markers_nine:
  assumes "well_formed_group ed fa" and "well_formed_group ed mo" and "well_formed_group ed pl"
  shows "\<exists>g. Genetics_init fa mo pl ed seeds = Inr g
     \<and> get_markers g = expressed g @ dormant g
     \<and> length (get_markers g) = 9
     \<and> length (expressed g) = 3 \<and> length (dormant g) = 6
     \<and> list_all py_isupper (expressed g) \<and> list_all py_islower (dormant g)
     \<and> length (filter py_isupper (get_markers g)) = 3
     \<and> length (filter py_islower (get_markers g)) = 6
     \<and> expressed g ! 0 \<in> set fa \<and> expressed g ! 1 \<in> set mo \<and> expressed g ! 2 \<in> set pl"
proof -
  from Genetics_init_wf [OF assms, of seeds] obtain g where
    g: "Genetics_init fa mo pl ed seeds = Inr g" "length (expressed g) = 3"
       "length (dormant g) = 6" "list_all py_isupper (expressed g)"
       "list_all py_islower (dormant g)"
       "expressed g ! 0 \<in> set fa" "expressed g ! 1 \<in> set mo" "expressed g ! 2 \<in> set pl"
    by blast
  have e_not_low: "list_all (\<lambda>m. \<not> py_islower m) (expressed g)"
    using g(4) by (rule all_upper_none_lower)
  have d_not_up: "list_all (\<lambda>m. \<not> py_isupper m) (dormant g)"
    using g(5) by (rule all_lower_none_upper)
  have up: "length (filter py_isupper (get_markers g)) = 3"
    using g(2) by (simp add: get_markers_def filter_all [OF g(4)] filter_none [OF d_not_up])
  have low: "length (filter py_islower (get_markers g)) = 6"
    using g(3) by (simp add: get_markers_def filter_all [OF g(5)] filter_none [OF e_not_low])
  have len: "length (get_markers g) = 9"
    using g(2,3) by (simp add: get_markers_def)
  have gm: "get_markers g = expressed g @ dormant g"
    by (simp add: get_markers_def)
  from g gm up low len show ?thesis
    by blast
qed

theorem get_markers_nine_witness:
  "well_formed_group True [''D'', ''a'', ''e''] \<and> well_formed_group True [''I'', ''b'', ''m'']
   \<and> well_formed_group True [''M'', ''m'', ''m'']
   \<and> Genetics_init [''D'', ''a'', ''e''] [''I'', ''b'', ''m''] [''M'', ''m'', ''m''] True (0, 0, 0)
       = Inr example_genetics
   \<and> get_markers example_genetics = [''D'', ''I'', ''M'', ''a'', ''e'', ''b'', ''m'', ''m'', ''m'']
   \<and> length (get_markers example_genetics) = 9"
proof -
  have up: "py_isupper ''D''" "py_isupper ''I''" "py_isupper ''M''"
    "\<not> py_isupper ''a''" "\<not> py_isupper ''e''" "\<not> py_isupper ''b''" "\<not> py_isupper ''m''"
    by (simp_all add: py_isupper_def is_upper_c_def is_lower_c_def upper_letters_def lower_letters_def)
  have mk: "is_marker ''D''" "is_marker ''I''" "is_marker ''M''"
    "is_marker ''a''" "is_marker ''e''" "is_marker ''b''" "is_marker ''m''"
    by (simp_all add: is_marker_def MARKERS_def py_lower_def lower_c_def upper_letters_def lower_letters_def)
  have wf: "well_formed_group True [''D'', ''a'', ''e'']" "well_formed_group True [''I'', ''b'', ''m'']"
    "well_formed_group True [''M'', ''m'', ''m'']"
    using up mk by (simp_all add: well_formed_group_def)
  have low: "py_lower ''a'' = ''a''" "py_lower ''e'' = ''e''" "py_lower ''b'' = ''b''" "py_lower ''m'' = ''m''"
    by (simp_all add: py_lower_def lower_c_def upper_letters_def lower_letters_def)
  have run: "Genetics_init [''D'', ''a'', ''e''] [''I'', ''b'', ''m''] [''M'', ''m'', ''m''] True (0, 0, 0)
       = Inr example_genetics"
    using up low by (simp add: Genetics_init_def py_bind_def process_source_def example_genetics_def)
  show ?thesis
    using get_markers_nine [OF wf, of "(0, 0, 0)"] wf run
    by (simp add: get_markers_def example_genetics_def)
qed

lemma process_source_raises:
  "process_source ed s g = Inl e \<longleftrightarrow>
     e = ValueError \<and> (if ed then filter py_isupper g = [] else g = [])"
  by (auto simp add: process_source_def Let_def split: list.splits)

lemma process_source_total:
  "\<not> rejected_group ed g \<Longrightarrow> \<exists>r. process_source ed s g = Inr r"
  using process_source_raises [of ed s g]
  by (cases "process_source ed s g") (auto simp add: rejected_group_def)

lemma process_source_rejected:
  "rejected_group ed g \<Longrightarrow> process_source ed s g = Inl ValueError"
  using process_source_raises [of ed s g ValueError] by (simp add: rejected_group_def)


lemma Genetics_init_rejected:
  assumes "rejected_group ed fa \<or> rejected_group ed mo \<or> rejected_group ed pl"
  shows "Genetics_init fa mo pl ed seeds = Inl ValueError"
proof (cases "process_source ed (fst seeds) fa")
  case (Inl e)
  then have "e = ValueError" using process_source_raises [of ed "fst seeds" fa e] by simp
  with Inl show ?thesis by (simp add: Genetics_init_def py_bind_def)
next
  case fp: (Inr fp)
  then have f: "\<not> rejected_group ed fa"
    using process_source_rejected [of ed fa "fst seeds"] by auto
  show ?thesis
  proof (cases "process_source ed (fst (snd seeds)) mo")
    case (Inl e)
    then have "e = ValueError" using process_source_raises [of ed "fst (snd seeds)" mo e] by simp
    with Inl fp show ?thesis by (simp add: Genetics_init_def py_bind_def)
  next
    case mp: (Inr mp)
    then have m: "\<not> rejected_group ed mo"
      using process_source_rejected [of ed mo "fst (snd seeds)"] by auto
    from assms f m have "rejected_group ed pl" by simp
    then have "process_source ed (snd (snd seeds)) pl = Inl ValueError"
      by (rule process_source_rejected)
    with fp mp show ?thesis by (simp add: Genetics_init_def py_bind_def)
  qed
qed

lemma Genetics_init_accepted:
  assumes "\<not> (rejected_group ed fa \<or> rejected_group ed mo \<or> rejected_group ed pl)"
  shows "\<exists>g. Genetics_init fa mo pl ed seeds = Inr g"
proof -
  from assms have f: "\<not> rejected_group ed fa" and m: "\<not> rejected_group ed mo"
    and p: "\<not> rejected_group ed pl" by simp_all
  from process_source_total [OF f] obtain fp where
    fp: "process_source ed (fst seeds) fa = Inr fp" by blast
  from process_source_total [OF m] obtain mp where
    mp: "process_source ed (fst (snd seeds)) mo = Inr mp" by blast
  from process_source_total [OF p] obtain pp where
    pp: "process_source ed (snd (snd seeds)) pl = Inr pp" by blast
  show ?thesis
    using fp mp pp by (simp add: Genetics_init_def py_bind_def)
qed


text \<open>
  C7, amended. Constructing the genetics raises \<open>ValueError\<close> exactly when the expression
  is preset and some group has no upper-case marker, or the expression is random and some
  group is empty; on every other input, whatever the number of markers in a group, it
  succeeds. When it raises, no player is built, so no attribute range exists or changes.
\<close>

theorem Genetics_init_raises:
  "(Genetics_init fa mo pl ed seeds = Inl ValueError)
     = (rejected_group ed fa \<or> rejected_group ed mo \<or> rejected_group ed pl)
   \<and> ((\<exists>g. Genetics_init fa mo pl ed seeds = Inr g)
     = (\<not> (rejected_group ed fa \<or> rejected_group ed mo \<or> rejected_group ed pl)))
   \<and> (rejected_group ed fa \<or> rejected_group ed mo \<or> rejected_group ed pl \<longrightarrow>
        create_player cfg nm fa mo pl ed seeds physical mental social livelihood travel essence sz bd eye
          = Inl ValueError)"
proof (cases "rejected_group ed fa \<or> rejected_group ed mo \<or> rejected_group ed pl")
  case True
  from Genetics_init_rejected [OF True, of seeds] True show ?thesis
    by (simp add: create_player_def py_bind_def)
next
  case False
  from Genetics_init_accepted [OF False, of seeds] obtain g where
    "Genetics_init fa mo pl ed seeds = Inr g" by blast
  with False show ?thesis by simp
qed

theorem Genetics_init_raises_witness:
  "rejected_group True [''d'', ''a'', ''e'']
   \<and> Genetics_init [''d'', ''a'', ''e''] [''I'', ''b'', ''m''] [''M'', ''m'', ''m''] True (0, 0, 0)
       = Inl ValueError
   \<and> create_player example_config ''Ada'' [''d'', ''a'', ''e''] [''I'', ''b'', ''m'']
       [''M'', ''m'', ''m''] True (0, 0, 0) ''Juggernaut'' ''Strategist'' ''Diplomat'' ''Artisan'' ''Wayfinder''
       [''Ironclad Will'', ''Memory Palace'', ''Beastkin'', ''Runic Aegis'']
       \<lparr>Height = 71, Weight = 175\<rparr> \<lparr>Year = 850, Month = 3\<rparr> ''grey'' = Inl ValueError"
proof -
  have r: "rejected_group True [''d'', ''a'', ''e'']"
    by (simp add: rejected_group_def py_isupper_def is_upper_c_def is_lower_c_def
        upper_letters_def lower_letters_def)
  show ?thesis
    using r Genetics_init_raises [of "[''d'', ''a'', ''e'']" "[''I'', ''b'', ''m'']"
        "[''M'', ''m'', ''m'']" True "(0, 0, 0)" example_config "''Ada''" "''Juggernaut''"
        "''Strategist''" "''Diplomat''" "''Artisan''" "''Wayfinder''"
        "[''Ironclad Will'', ''Memory Palace'', ''Beastkin'', ''Runic Aegis'']" "\<lparr>Height = 71, Weight = 175\<rparr>"
        "\<lparr>Year = 850, Month = 3\<rparr>" "''grey''"]
    by simp
qed

text \<open>
  C7, as stated, at a concrete input: a father group of two markers is accepted, and the
  genetics built from it have five dormant markers.
\<close>

theorem Genetics_init_wrong_count_counterexample:
  "Genetics_init [''A'', ''b''] [''D'', ''e'', ''i''] [''M'', ''m'', ''m''] True (0, 0, 0)
     = Inr \<lparr>expression_defined = True,
            father = [''A'', ''b''], mother = [''D'', ''e'', ''i''], planet = [''M'', ''m'', ''m''],
            father_processed = \<lparr>src_expressed = ''A'', src_dormant = [''b'']\<rparr>,
            mother_processed = \<lparr>src_expressed = ''D'', src_dormant = [''e'', ''i'']\<rparr>,
            planet_processed = \<lparr>src_expressed = ''M'', src_dormant = [''m'', ''m'']\<rparr>,
            expressed = [''A'', ''D'', ''M''],
            dormant = [''b'', ''e'', ''i'', ''m'', ''m'']\<rparr>"
proof -
  have up: "py_isupper ''A''" "py_isupper ''D''" "py_isupper ''M''"
    "\<not> py_isupper ''b''" "\<not> py_isupper ''e''" "\<not> py_isupper ''i''" "\<not> py_isupper ''m''"
    by (simp_all add: py_isupper_def is_upper_c_def is_lower_c_def upper_letters_def lower_letters_def)
  have low: "py_lower ''b'' = ''b''" "py_lower ''e'' = ''e''" "py_lower ''i'' = ''i''" "py_lower ''m'' = ''m''"
    by (simp_all add: py_lower_def lower_c_def upper_letters_def lower_letters_def)
  show ?thesis
    using up low by (simp add: Genetics_init_def py_bind_def process_source_def)
qed



section \<open>Properties of the somatic stage\<close>

lemma compute_size_modifiers_neutral:
  "compute_size_modifiers neutral_size ability_name = Inr (0, 0)"
  by (simp add: compute_size_modifiers_def neutral_size_def Let_def py_truediv_def py_bind_def
      NEUTRAL_HEIGHT_FEET_def NEUTRAL_WEIGHT_def)

lemma size_alter_sliders_neutral: "size_alter_sliders neutral_size slider_name = 0"
  by (simp add: size_alter_sliders_def neutral_size_def Let_def)

lemma boundary_check_in_range: "in_range r \<Longrightarrow> boundary_check r = r"
  by (simp add: in_range_def boundary_check_def Let_def)

lemma size_alter_loop_neutral:
  "size_alter_loop neutral_size al = Inr (map (\<lambda>(n, r). (n, boundary_check r)) al)"
  by (induction al) (auto simp add: compute_size_modifiers_neutral py_bind_def)

lemma map_boundary_check_in_range:
  "list_all (\<lambda>(n, r). in_range r) al \<Longrightarrow> map (\<lambda>(n, r). (n, boundary_check r)) al = al"
  by (induction al) (auto simp add: boundary_check_in_range)

lemma map_current_unchanged:
  "map (\<lambda>(slider, r). (slider, r\<lparr>current := current r + 0\<rparr>)) sl = sl"
  by (induction sl) auto

text \<open>
  C9, as stated, at concrete inputs. At 71 inches the height factor that
  \<open>compute_size_modifiers\<close> computes is -13/300, not 0 (the function returns the
  modifiers (0, 0) through its special case, without zeroing the factors). And the somatic
  stage at the neutral size changes an ability that enters it with floor and ceiling -1:
  it is normalized again, to floor 0 and ceiling 1.
\<close>

theorem neutral_size_counterexample:
  "height_factor (71 / 12) = - (13 / 300)
   \<and> size_alter_abilities
        (example_player\<lparr>abilities := [(''Speed'', \<lparr>floor_r = - 1, ceiling_r = - 1, current = - 1\<rparr>)]\<rparr>)
       = Inr (example_player\<lparr>abilities := [(''Speed'', \<lparr>floor_r = 0, ceiling_r = 1, current = 0\<rparr>)]\<rparr>)"
proof -
  have sz: "size_p example_player = neutral_size"
    by (simp add: example_player_def neutral_size_def)
  have sl: "gameplay_sliders example_player = []"
    by (simp add: example_player_def)
  have bc: "boundary_check \<lparr>floor_r = - 1, ceiling_r = - 1, current = - 1\<rparr>
              = \<lparr>floor_r = 0, ceiling_r = 1, current = 0\<rparr>"
    by (simp add: boundary_check_def Let_def)
  have run: "size_alter_abilities
        (example_player\<lparr>abilities := [(''Speed'', \<lparr>floor_r = - 1, ceiling_r = - 1, current = - 1\<rparr>)]\<rparr>)
       = Inr (example_player\<lparr>abilities := [(''Speed'', \<lparr>floor_r = 0, ceiling_r = 1, current = 0\<rparr>)]\<rparr>)"
    using sz sl bc
    by (simp add: size_alter_abilities_def compute_size_modifiers_neutral py_bind_def)
  have hf: "height_factor (71 / 12) = - (13 / 300)"
    by (simp add: height_factor_def NEUTRAL_HEIGHT_FEET_def)
  from hf run show ?thesis by simp
qed

text \<open>
  C9, amended. At height 71 inches and weight 175 pounds \<open>compute_size_modifiers\<close> returns
  the floor and ceiling modifiers (0, 0) for every ability, the eight somatic ones
  included, and the slider delta is 0 for every slider, Inverse Metabolic Rate included;
  the weight factor is 0. The somatic stage then leaves the sliders as they were and
  normalizes every ability again; a player whose abilities are all within
  0 \<le> floor \<le> ceiling \<le> 99 with current = floor comes out unchanged.
\<close>

theorem neutral_size_no_modifiers:
  "compute_size_modifiers neutral_size ability_name = Inr (0, 0)
   \<and> size_alter_sliders neutral_size slider_name = 0
   \<and> weight_factor (Weight neutral_size) = 0
   \<and> (size_p p = neutral_size \<longrightarrow>
        size_alter_abilities p
          = Inr (p\<lparr>abilities := map (\<lambda>(n, r). (n, boundary_check r)) (abilities p)\<rparr>))
   \<and> (size_p p = neutral_size \<and> list_all (\<lambda>(n, r). in_range r) (abilities p) \<longrightarrow>
        size_alter_abilities p = Inr p)"
proof -
  have w: "weight_factor (Weight neutral_size) = 0"
    by (simp add: weight_factor_def neutral_size_def NEUTRAL_WEIGHT_def)
  have run: "size_alter_abilities p
          = Inr (p\<lparr>abilities := map (\<lambda>(n, r). (n, boundary_check r)) (abilities p)\<rparr>)"
    if "size_p p = neutral_size"
    using that
    by (simp add: size_alter_abilities_def size_alter_loop_neutral py_bind_def
        size_alter_sliders_neutral map_current_unchanged)
  have same: "size_alter_abilities p = Inr p"
    if "size_p p = neutral_size" and "list_all (\<lambda>(n, r). in_range r) (abilities p)"
    using run [OF that(1)] map_boundary_check_in_range [OF that(2)] by simp
  from w run same compute_size_modifiers_neutral size_alter_sliders_neutral show ?thesis
    by blast
qed


theorem neutral_size_no_modifiers_witness:
  "size_p (example_player\<lparr>abilities := [(''Speed'', \<lparr>floor_r = 0, ceiling_r = 1, current = 0\<rparr>)]\<rparr>)
     = neutral_size
   \<and> list_all (\<lambda>(n, r). in_range r)
        (abilities (example_player\<lparr>abilities := [(''Speed'', \<lparr>floor_r = 0, ceiling_r = 1, current = 0\<rparr>)]\<rparr>))
   \<and> compute_size_modifiers neutral_size ''Speed'' = Inr (0, 0)
   \<and> size_alter_sliders neutral_size ''Inverse Metabolic Rate'' = 0
   \<and> size_alter_abilities
        (example_player\<lparr>abilities := [(''Speed'', \<lparr>floor_r = 0, ceiling_r = 1, current = 0\<rparr>)]\<rparr>)
       = Inr (example_player\<lparr>abilities := [(''Speed'', \<lparr>floor_r = 0, ceiling_r = 1, current = 0\<rparr>)]\<rparr>)"
proof -
  let ?p = "example_player\<lparr>abilities := [(''Speed'', \<lparr>floor_r = 0, ceiling_r = 1, current = 0\<rparr>)]\<rparr>"
  have sz: "size_p ?p = neutral_size"
    by (simp add: example_player_def neutral_size_def)
  have ok: "list_all (\<lambda>(n, r). in_range r) (abilities ?p)"
    by (simp add: in_range_def)
  have bc: "boundary_check \<lparr>floor_r = 0, ceiling_r = 1, current = 0\<rparr>
              = \<lparr>floor_r = 0, ceiling_r = 1, current = 0\<rparr>"
    by (simp add: boundary_check_def Let_def)
  show ?thesis
    using neutral_size_no_modifiers [of "''Speed''" "''Inverse Metabolic Rate''" ?p] sz ok bc
    by simp
qed

section \<open>Properties of the chronological stage\<close>

lemma curves_all_bell:
  assumes "map_of ABILITY_AGE_CURVES ability = Some (kind, a, b)"
  shows "kind = ''bell''"
proof -
  from assms have "(ability, kind, a, b) \<in> set ABILITY_AGE_CURVES"
    by (rule map_of_SomeD)
  then show ?thesis
    unfolding ABILITY_AGE_CURVES_def by auto
qed

lemma compute_age_modifiers_spec:
  "compute_age_modifiers p ability
     = spec_raw ability (real_of_int (get_age p)) * spec_late (real_of_int (get_age p))"
proof (cases "map_of ABILITY_AGE_CURVES ability")
  case None
  then show ?thesis
    by (simp add: compute_age_modifiers_def spec_raw_def spec_late_def spec_sigmoid_def
        np_clip_def dict_get_def Let_def)
next
  case (Some c)
  obtain kind a b where c: "c = (kind, a, b)" by (cases c) auto
  with Some have "kind = ''bell''" using curves_all_bell by simp
  with Some c show ?thesis
    by (simp add: compute_age_modifiers_def spec_raw_def spec_late_def spec_bell_def
        dict_get_def Let_def)
qed

text \<open>
  C5. The chronological ability stage sets the current of every ability to
  floor + raw * late * (ceiling - floor), whatever the current was, where late is
  exp(-0.08 * max(age - 120, 0)) and raw is the value of the ability's curve family, the
  sigmoid with centre 0.50 and steepness 3.0 when the ability is not in the table.
  Strength has the bell curve with peak 35 and width 35; at age 120 the late-life factor is
  exp(0) = 1, so the modifier of Strength is the bell value alone.
\<close>

theorem age_alter_abilities_formula:
  "abilities (age_alter_abilities p)
     = map (\<lambda>(ability_name, r).
              (ability_name,
               r\<lparr>current := floor_r r
                    + spec_raw ability_name (real_of_int (get_age p))
                      * spec_late (real_of_int (get_age p))
                      * (ceiling_r r - floor_r r)\<rparr>))
           (abilities p)
   \<and> (map_of ABILITY_AGE_CURVES ability = None \<longrightarrow> spec_raw ability age = spec_sigmoid (1 / 2) 3 age)
   \<and> spec_raw ''Strength'' age = spec_bell 35 35 age
   \<and> spec_late 120 = exp 0 \<and> spec_late 120 = 1
   \<and> (get_age p = 120 \<longrightarrow> compute_age_modifiers p ''Strength'' = spec_bell 35 35 120)"
proof -
  have form: "abilities (age_alter_abilities p)
     = map (\<lambda>(ability_name, r).
              (ability_name,
               r\<lparr>current := floor_r r
                    + spec_raw ability_name (real_of_int (get_age p))
                      * spec_late (real_of_int (get_age p))
                      * (ceiling_r r - floor_r r)\<rparr>))
           (abilities p)"
    by (simp add: age_alter_abilities_def compute_age_modifiers_spec)
  have dflt: "map_of ABILITY_AGE_CURVES ability = None \<longrightarrow> spec_raw ability age = spec_sigmoid (1 / 2) 3 age"
    by (simp add: spec_raw_def)
  have str: "spec_raw ''Strength'' age = spec_bell 35 35 age" for age
    by (simp add: spec_raw_def ABILITY_AGE_CURVES_def)
  have late: "spec_late 120 = exp 0" "spec_late 120 = 1"
    by (simp_all add: spec_late_def)
  have at120: "get_age p = 120 \<longrightarrow> compute_age_modifiers p ''Strength'' = spec_bell 35 35 120"
    using late(2) by (simp add: compute_age_modifiers_spec str)
  from form dflt str late at120 show ?thesis by blast
qed

theorem age_alter_abilities_formula_witness:
  "get_age (example_player\<lparr>birthdate := \<lparr>Year = 765, Month = 3\<rparr>\<rparr>) = 120
   \<and> map_of ABILITY_AGE_CURVES ''Luck'' = None
   \<and> spec_raw ''Luck'' 120 = spec_sigmoid (1 / 2) 3 120
   \<and> compute_age_modifiers (example_player\<lparr>birthdate := \<lparr>Year = 765, Month = 3\<rparr>\<rparr>) ''Strength''
       = spec_bell 35 35 120"
proof -
  have age: "get_age (example_player\<lparr>birthdate := \<lparr>Year = 765, Month = 3\<rparr>\<rparr>) = 120"
    by (simp add: get_age_def get_date_def)
  have none: "map_of ABILITY_AGE_CURVES ''Luck'' = None"
    by (simp add: ABILITY_AGE_CURVES_def)
  show ?thesis
    using age_alter_abilities_formula
      [of "example_player\<lparr>birthdate := \<lparr>Year = 765, Month = 3\<rparr>\<rparr>" "''Luck''" 120] age none
    by simp
qed


section \<open>Properties of the skill seeding\<close>


lemma name_increment_xp: "name (increment_xp sk d) = name sk"
  by (simp add: increment_xp_def Let_def)

lemma lists_skillset_count:
  assumes "lists_skillset cfg trait n"
  shows "\<exists>c. trait_skillset_count cfg trait = Inr c \<and> 0 < c"
proof (cases "dict_get (TRAIT_MODIFIERS cfg) trait")
  case None
  with assms show ?thesis by (simp add: lists_skillset_def)
next
  case (Some tm)
  show ?thesis
  proof (cases "Skillsets tm")
    case None
    with Some assms show ?thesis by (simp add: lists_skillset_def)
  next
    case sd: (Some sd)
    show ?thesis
    proof (cases sd)
      case (SkDict d)
      with Some sd assms have "dict_get d n \<noteq> None" by (simp add: lists_skillset_def)
      then have "d \<noteq> []" by (auto simp add: dict_get_def)
      with Some sd SkDict show ?thesis by (simp add: trait_skillset_count_def)
    next
      case (SkList l)
      with Some sd assms have "n \<in> set l" by (simp add: lists_skillset_def)
      then have "l \<noteq> []" by auto
      with Some sd SkList show ?thesis by (simp add: trait_skillset_count_def)
    qed
  qed
qed

lemma seed_from_trait_count:
  assumes "trait_skillset_count cfg trait = Inr c"
  shows "seed_from_trait cfg p score trait sk
           = Inr (increment_xp sk (learning_rate p * score * spec_base_xp c))"
  using assms
  by (simp add: seed_from_trait_def py_bind_def py_truediv_def spec_base_xp_def TRAIT_XP_def Let_def)


lemma for_each_seed:
  assumes "\<forall>t\<in>set ts. lists_skillset cfg t n"
  shows "for_each (seed_from_trait cfg p score) ts sk
           = Inr (foldl increment_xp sk
                    (map (\<lambda>t. learning_rate p * score * spec_base_xp (listed_count cfg t)) ts))"
  using assms
proof (induction ts arbitrary: sk)
  case Nil
  then show ?case by simp
next
  case (Cons t ts)
  from Cons.prems have "lists_skillset cfg t n" by simp
  from lists_skillset_count [OF this] obtain c where
    c: "trait_skillset_count cfg t = Inr c" by blast
  then have lc: "listed_count cfg t = c" by (simp add: listed_count_def)
  from Cons.prems have rest: "\<forall>t\<in>set ts. lists_skillset cfg t n" by simp
  show ?case
    by (simp add: seed_from_trait_count [OF c] py_bind_def lc Cons.IH [OF rest])
qed

lemma map_filter_sum:
  "sum_list (List.map_filter (\<lambda>entry. map_option (\<lambda>r. current r * snd entry) (m (fst entry))) ws)
     = (\<Sum>entry\<leftarrow>filter (\<lambda>entry. m (fst entry) \<noteq> None) ws. current (the (m (fst entry))) * snd entry)"
  by (induction ws) auto

lemma normalized_score_spec:
  "normalized_score p weights = Inr (spec_normalized_score p weights)"
  by (simp add: normalized_score_def spec_normalized_score_def Let_def py_bind_def py_truediv_def
      dict_get_def map_filter_sum)


lemma traits_with_skillset_list:
  "\<forall>t\<in>set (traits_with_skillset cfg p n). lists_skillset cfg t n"
  by (simp add: traits_with_skillset_def)

lemma seed_skillset_value:
  assumes "dict_get (SKILLSET_ABILITY_DEPENDENCE cfg) (name sk) = Some deps"
    and "ability_values p deps \<noteq> []"
  shows "seed_skillset cfg p sk
     = Inr (foldl increment_xp sk
              (map (\<lambda>t. learning_rate p * spec_normalized_score p (ability_weights p deps)
                         * spec_base_xp (listed_count cfg t))
                   (traits_with_skillset cfg p (name sk))))"
  using assms
  by (simp add: seed_skillset_def normalized_score_spec py_bind_def
      for_each_seed [OF traits_with_skillset_list])

lemma seed_skillset_skipped:
  assumes "dict_get (SKILLSET_ABILITY_DEPENDENCE cfg) (name sk) = Some deps"
    and "ability_values p deps = []"
  shows "seed_skillset cfg p sk = Inr sk"
  using assms by (simp add: seed_skillset_def)

lemma seed_skillset_total:
  assumes "dict_get (SKILLSET_ABILITY_DEPENDENCE cfg) (name sk) \<noteq> None"
  shows "\<exists>sk'. seed_skillset cfg p sk = Inr sk'"
proof -
  from assms obtain deps where
    d: "dict_get (SKILLSET_ABILITY_DEPENDENCE cfg) (name sk) = Some deps" by auto
  show ?thesis
  proof (cases "ability_values p deps = []")
    case True
    from seed_skillset_skipped [OF d True] show ?thesis by simp
  next
    case False
    from seed_skillset_value [OF d False] show ?thesis by simp
  qed
qed



lemma map_raise_total:
  assumes "\<forall>x\<in>set xs. \<exists>y. f x = Inr y"
  shows "\<exists>ys. map_raise f xs = Inr ys"
  using assms
proof (induction xs)
  case Nil
  then show ?case by simp
next
  case (Cons x xs)
  then obtain y ys where "f x = Inr y" "map_raise f xs = Inr ys" by auto
  then show ?case by (simp add: py_bind_def)
qed

lemma apply_overflow_total: "\<exists>sks'. apply_overflow cfg item sks = Inr sks'"
  by (simp add: apply_overflow_def Let_def py_truediv_def py_bind_def)

lemma for_each_apply_overflow_total:
  "\<exists>sks'. for_each (apply_overflow cfg) items sks = Inr sks'"
proof (induction items arbitrary: sks)
  case Nil
  then show ?case by simp
next
  case (Cons item items)
  from apply_overflow_total [of cfg item sks] obtain sks1 where
    "apply_overflow cfg item sks = Inr sks1" by blast
  with Cons.IH [of sks1] show ?case by (simp add: py_bind_def)
qed


lemma initialize_skillsets_abilities:
  assumes "initialize_skillsets cfg p = Inr p'"
  shows "abilities p' = abilities p \<and> gameplay_sliders p' = gameplay_sliders p
         \<and> birthdate p' = birthdate p"
  using assms
  by (auto simp add: initialize_skillsets_def Let_def py_bind_def split: sum.splits)

lemma create_skillsets_names:
  "sk \<in> set (create_skillsets cfg) \<Longrightarrow>
     dict_get (SKILLSET_ABILITY_DEPENDENCE cfg) (name sk) \<noteq> None"
proof -
  assume "sk \<in> set (create_skillsets cfg)"
  then obtain n deps where e: "(n, deps) \<in> set (SKILLSET_ABILITY_DEPENDENCE cfg)"
    and n: "name sk = n"
    by (auto simp add: create_skillsets_def Skillset_init_def)
  from e have "n \<in> fst ` set (SKILLSET_ABILITY_DEPENDENCE cfg)" by force
  then have "map_of (SKILLSET_ABILITY_DEPENDENCE cfg) n \<noteq> None"
    by (simp add: map_of_eq_None_iff)
  with n show ?thesis by (simp add: dict_get_def)
qed

lemma initialize_skillsets_total:
  assumes "skillsets p = []"
  shows "\<exists>p'. initialize_skillsets cfg p = Inr p'"
proof -
  let ?p1 = "p\<lparr>skillsets := skillsets p @ create_skillsets cfg\<rparr>"
  have "\<forall>sk\<in>set (skillsets ?p1). \<exists>y. seed_skillset cfg ?p1 sk = Inr y"
    using assms create_skillsets_names seed_skillset_total by simp
  from map_raise_total [OF this] obtain seeded where
    s: "map_raise (seed_skillset cfg ?p1) (skillsets ?p1) = Inr seeded" by blast
  from for_each_apply_overflow_total [of cfg "group_overflow (skill_init_overflow ?p1)" seeded]
  obtain sks where "for_each (apply_overflow cfg) (group_overflow (skill_init_overflow ?p1)) seeded = Inr sks"
    by blast
  with s show ?thesis by (simp add: initialize_skillsets_def Let_def py_bind_def)
qed

section \<open>Invariants of the whole construction\<close>

lemma for_each_invariant:
  assumes "\<And>x s s'. I s \<Longrightarrow> body x s = Inr s' \<Longrightarrow> I s'"
    and "I s" and "for_each body xs s = Inr s'"
  shows "I s'"
  using assms(2,3)
proof (induction xs arbitrary: s)
  case Nil
  then show ?case by simp
next
  case (Cons x xs)
  show ?case
  proof (cases "body x s")
    case (Inl e)
    with Cons.prems(2) show ?thesis by (simp add: py_bind_def)
  next
    case (Inr s1)
    with Cons.prems(2) have rest: "for_each body xs s1 = Inr s'" by (simp add: py_bind_def)
    from assms(1) [OF Cons.prems(1) Inr] have "I s1" .
    from Cons.IH [OF this rest] show ?thesis .
  qed
qed

lemma for_each_total:
  assumes "\<And>x s. x \<in> set xs \<Longrightarrow> I s \<Longrightarrow> \<exists>s'. body x s = Inr s' \<and> I s'"
    and "I s"
  shows "\<exists>s'. for_each body xs s = Inr s' \<and> I s'"
  using assms
proof (induction xs arbitrary: s)
  case Nil
  then show ?case by simp
next
  case (Cons x xs)
  from Cons.prems(1) [of x s] Cons.prems(2) obtain s1 where
    s1: "body x s = Inr s1" "I s1" by auto
  have "\<exists>s'. for_each body xs s1 = Inr s' \<and> I s'"
    using Cons.IH [of s1] Cons.prems(1) s1(2) by simp
  with s1(1) show ?case by (simp add: py_bind_def)
qed

lemma dict_set_values:
  assumes "list_all (\<lambda>(k, v). P v) d" and "P v"
  shows "list_all (\<lambda>(k, v). P v) (dict_set d k v)"
  using assms by (induction d) auto

lemma dict_set_keys:
  assumes "dict_get d k \<noteq> None"
  shows "map fst (dict_set d k v) = map fst d"
  using assms by (induction d) (auto simp add: dict_get_def)

lemma dict_get_present:
  assumes "k \<in> set (map fst d)"
  shows "\<exists>v. dict_get d k = Some v"
proof (cases "map_of d k")
  case None
  with assms show ?thesis by (simp add: map_of_eq_None_iff)
next
  case (Some v)
  then show ?thesis by (simp add: dict_get_def)
qed

lemma size_alter_loop_result:
  assumes "size_alter_loop sz al = Inr al'"
  shows "list_all (\<lambda>(n, r). floor_r r \<le> ceiling_r r) al' \<and> map fst al' = map fst al"
  using assms
proof (induction al arbitrary: al')
  case Nil
  then show ?case by simp
next
  case (Cons nr al)
  obtain n r where nr: "nr = (n, r)" by (cases nr) auto
  show ?case
  proof (cases "compute_size_modifiers sz n")
    case (Inl e)
    with Cons.prems nr show ?thesis by (simp add: py_bind_def)
  next
    case mods: (Inr mods)
    show ?thesis
    proof (cases "size_alter_loop sz al")
      case (Inl e)
      with Cons.prems nr mods show ?thesis by (simp add: py_bind_def)
    next
      case (Inr rest)
      from Cons.IH [OF Inr] Cons.prems nr mods Inr show ?thesis
        by (auto simp add: py_bind_def boundary_check_floor_le_ceiling)
    qed
  qed
qed

lemma size_alter_abilities_result:
  assumes "size_alter_abilities p = Inr p'"
  shows "ordered_abilities p' \<and> ability_names p' = ability_names p
         \<and> slider_names p' = slider_names p \<and> birthdate p' = birthdate p
         \<and> selected_traits p' = selected_traits p"
proof (cases "size_alter_loop (size_p p) (abilities p)")
  case (Inl e)
  with assms show ?thesis by (simp add: size_alter_abilities_def py_bind_def)
next
  case (Inr al')
  from size_alter_loop_result [OF Inr] Inr assms show ?thesis
    by (auto simp add: size_alter_abilities_def py_bind_def ordered_abilities_def
        ability_names_def slider_names_def selected_traits_def case_prod_beta comp_def)
qed

lemma trait_ability_step_result:
  assumes "trait_ability_step trait entry p = Inr p'" and "ordered_abilities p"
  shows "ordered_abilities p' \<and> ability_names p' = ability_names p
         \<and> slider_names p' = slider_names p \<and> birthdate p' = birthdate p"
proof (cases "dict_get (abilities p) (fst entry)")
  case None
  with assms show ?thesis by (simp add: trait_ability_step_def Let_def)
next
  case (Some r)
  then have k: "dict_get (abilities p) (fst entry) \<noteq> None" by simp
  from assms Some show ?thesis
    by (auto simp add: trait_ability_step_def Let_def ordered_abilities_def ability_names_def
        slider_names_def dict_set_keys [OF k] boundary_check_floor_le_ceiling
        intro!: dict_set_values split: if_splits)
qed

lemma trait_slider_step_result:
  assumes "trait_slider_step entry p = Inr p'" and "ordered_abilities p"
  shows "ordered_abilities p' \<and> ability_names p' = ability_names p
         \<and> slider_names p' = slider_names p \<and> birthdate p' = birthdate p"
proof (cases "dict_get (gameplay_sliders p) (fst entry)")
  case None
  with assms show ?thesis by (simp add: trait_slider_step_def Let_def)
next
  case (Some r)
  then have k: "dict_get (gameplay_sliders p) (fst entry) \<noteq> None" by simp
  from assms Some show ?thesis
    by (auto simp add: trait_slider_step_def Let_def ordered_abilities_def ability_names_def
        slider_names_def dict_set_keys [OF k])
qed


lemma impose_trait_result:
  assumes "impose_trait cfg trait p = Inr p'" and "ordered_abilities p"
  shows "ordered_abilities p' \<and> ability_names p' = ability_names p
         \<and> slider_names p' = slider_names p \<and> birthdate p' = birthdate p"
proof (cases "dict_get (TRAIT_MODIFIERS cfg) trait")
  case None
  with assms show ?thesis by (simp add: impose_trait_def)
next
  case (Some tm)
  let ?I = "\<lambda>q. ordered_abilities q \<and> ability_names q = ability_names p
                \<and> slider_names q = slider_names p \<and> birthdate q = birthdate p"
  show ?thesis
  proof (cases "for_each (trait_ability_step trait) (Abilities tm) p")
    case (Inl e)
    with assms Some show ?thesis by (simp add: impose_trait_def py_bind_def)
  next
    case (Inr p1)
    have "?I p1"
      by (rule for_each_invariant [where I = ?I, OF _ _ Inr])
         (use assms(2) trait_ability_step_result in auto)
    moreover from assms Some Inr have "for_each trait_slider_step (Sliders tm) p1 = Inr p'"
      by (simp add: impose_trait_def py_bind_def)
    ultimately show "?I p'"
      by (rule for_each_invariant [where I = ?I, rotated 1])
         (use trait_slider_step_result in auto)
  qed
qed

lemma impose_trait_ability_modifiers_result:
  assumes "impose_trait_ability_modifiers cfg p = Inr p'" and "ordered_abilities p"
  shows "ordered_abilities p' \<and> ability_names p' = ability_names p
         \<and> slider_names p' = slider_names p \<and> birthdate p' = birthdate p"
proof -
  let ?I = "\<lambda>q. ordered_abilities q \<and> ability_names q = ability_names p
                \<and> slider_names q = slider_names p \<and> birthdate q = birthdate p"
  from assms(1) have run: "for_each (impose_trait cfg) (selected_traits p) p = Inr p'"
    by (simp add: impose_trait_ability_modifiers_def)
  show ?thesis
    by (rule for_each_invariant [where I = ?I, OF _ _ run])
       (use assms(2) impose_trait_result in auto)
qed

lemma spec_late_bounds: "0 \<le> spec_late age \<and> spec_late age \<le> 1"
  by (simp add: spec_late_def)

lemma spec_bell_bounds: "0 \<le> spec_bell mu width age \<and> spec_bell mu width age \<le> 1"
  by (simp add: spec_bell_def)

lemma spec_sigmoid_bounds:
  "0 \<le> spec_sigmoid centre steep age \<and> spec_sigmoid centre steep age \<le> 1"
proof -
  have "0 < exp (- steep * (min (max ((age - 17) / (145 - 17)) 0) 1 - centre))"
    by (rule exp_gt_zero)
  then show ?thesis
    by (simp add: spec_sigmoid_def Let_def add_pos_pos divide_le_eq_1)
qed

lemma spec_raw_bounds: "0 \<le> spec_raw ability age \<and> spec_raw ability age \<le> 1"
  by (auto simp add: spec_raw_def spec_bell_bounds spec_sigmoid_bounds split: option.splits)

lemma compute_age_modifiers_bounds:
  "0 \<le> compute_age_modifiers p ability \<and> compute_age_modifiers p ability \<le> 1"
  using spec_raw_bounds [of ability "real_of_int (get_age p)"]
    spec_late_bounds [of "real_of_int (get_age p)"]
  by (simp add: compute_age_modifiers_spec mult_le_one)

lemma interpolate_between:
  assumes "(lo::real) \<le> hi" and "0 \<le> f" and "f \<le> 1"
  shows "lo \<le> lo + f * (hi - lo) \<and> lo + f * (hi - lo) \<le> hi"
proof -
  from assms have a: "0 \<le> f * (hi - lo)" by simp
  from assms have "f * (hi - lo) \<le> 1 * (hi - lo)"
    by (intro mult_right_mono) simp_all
  with a show ?thesis by simp
qed

lemma age_alter_abilities_result:
  assumes "ordered_abilities p"
  shows "list_all (\<lambda>(ability_name, r). floor_r r \<le> current r \<and> current r \<le> ceiling_r r)
           (abilities (age_alter_abilities p))
         \<and> ability_names (age_alter_abilities p) = ability_names p"
proof -
  have "list_all (\<lambda>(ability_name, r). floor_r r \<le> current r \<and> current r \<le> ceiling_r r)
          (map (\<lambda>(ability_name, ability_range).
                (ability_name,
                 ability_range\<lparr>current :=
                   floor_r ability_range
                   + compute_age_modifiers q ability_name
                     * (ceiling_r ability_range - floor_r ability_range)\<rparr>)) al)"
    if "list_all (\<lambda>(ability_name, r). floor_r r \<le> ceiling_r r) al"
    for al :: "(string \<times> AttributeRange) list" and q
    using that
    by (induction al) (auto simp add: interpolate_between compute_age_modifiers_bounds)
  with assms show ?thesis
    by (simp add: age_alter_abilities_def ordered_abilities_def ability_names_def
        case_prod_beta comp_def)
qed


lemma baseline_ability_names:
  "map fst baseline_abilities = BASE_ABILITIES @ ESSENCE_ABILITIES"
  by (simp add: baseline_abilities_def BASE_ABILITIES_def ESSENCE_ABILITIES_def)

lemma baseline_slider_names: "map fst baseline_sliders = SLIDER_VALUES"
  by (simp add: baseline_sliders_def SLIDER_VALUES_def)

lemma genetically_alter_abilities_names:
  "ability_names (genetically_alter_abilities cfg p) = ability_names p
   \<and> slider_names (genetically_alter_abilities cfg p) = slider_names p
   \<and> birthdate (genetically_alter_abilities cfg p) = birthdate p
   \<and> size_p (genetically_alter_abilities cfg p) = size_p p
   \<and> selected_traits (genetically_alter_abilities cfg p) = selected_traits p"
  by (simp add: genetically_alter_abilities_def ability_names_def slider_names_def
      selected_traits_def case_prod_beta comp_def)

lemma initialize_abilities_result:
  assumes "initialize_abilities cfg p = Inr p'"
  shows "list_all (\<lambda>(ability_name, r). floor_r r \<le> current r \<and> current r \<le> ceiling_r r)
           (abilities p')
         \<and> ability_names p' = BASE_ABILITIES @ ESSENCE_ABILITIES
         \<and> birthdate p' = birthdate p"
proof -
  let ?p0 = "p\<lparr>abilities := baseline_abilities, gameplay_sliders := baseline_sliders\<rparr>"
  let ?p1 = "genetically_alter_abilities cfg ?p0"
  have n1: "ability_names ?p1 = BASE_ABILITIES @ ESSENCE_ABILITIES" "birthdate ?p1 = birthdate p"
    using genetically_alter_abilities_names [of cfg ?p0]
    by (simp_all add: ability_names_def baseline_ability_names)
  show ?thesis
  proof (cases "size_alter_abilities ?p1")
    case (Inl e)
    with assms show ?thesis by (simp add: initialize_abilities_def Let_def py_bind_def)
  next
    case p2: (Inr p2)
    from size_alter_abilities_result [OF p2] n1 have r2: "ordered_abilities p2"
      "ability_names p2 = BASE_ABILITIES @ ESSENCE_ABILITIES" "birthdate p2 = birthdate p"
      by simp_all
    show ?thesis
    proof (cases "impose_trait_ability_modifiers cfg p2")
      case (Inl e)
      with assms p2 show ?thesis by (simp add: initialize_abilities_def Let_def py_bind_def)
    next
      case p3: (Inr p3)
      from impose_trait_ability_modifiers_result [OF p3 r2(1)] r2 have r3: "ordered_abilities p3"
        "ability_names p3 = BASE_ABILITIES @ ESSENCE_ABILITIES" "birthdate p3 = birthdate p"
        by simp_all
      have r4: "ordered_abilities (rebase_sliders p3)"
        "ability_names (rebase_sliders p3) = BASE_ABILITIES @ ESSENCE_ABILITIES"
        "birthdate (rebase_sliders p3) = birthdate p"
        using r3 by (simp_all add: rebase_sliders_def ordered_abilities_def ability_names_def)
      from assms p2 p3 have p': "p' = age_alter_abilities (rebase_sliders p3)"
        by (simp add: initialize_abilities_def Let_def py_bind_def)
      have "birthdate (age_alter_abilities (rebase_sliders p3)) = birthdate p"
        using r4(3) by (simp add: age_alter_abilities_def)
      with age_alter_abilities_result [OF r4(1)] r4(2) p' show ?thesis by simp
    qed
  qed
qed

text \<open>
  C10. When the construction of a player completes, every ability range has
  floor \<le> current \<le> ceiling, and the abilities are the 36 named ones. Boundary
  normalization never leaves the floor above the ceiling, and the age modifier with which
  the final chronological stage sets current = floor + f * (ceiling - floor) is always
  within 0..1.
\<close>

theorem Player_init_abilities_bracketed:
  assumes "Player_init cfg nm g physical mental social livelihood travel essence sz bd eye = Inr p"
  shows "list_all (\<lambda>(ability_name, r). floor_r r \<le> current r \<and> current r \<le> ceiling_r r)
           (abilities p)
     \<and> map fst (abilities p) = BASE_ABILITIES @ ESSENCE_ABILITIES
     \<and> floor_r (boundary_check r) \<le> ceiling_r (boundary_check r)
     \<and> 0 \<le> compute_age_modifiers p ability \<and> compute_age_modifiers p ability \<le> 1"
proof -
  let ?p = "\<lparr>player_name = nm, birthdate = bd, eye_color = eye, size_p = sz, genetics = g,
               physical_trait = physical, mental_trait = mental, social_trait = social,
               livelihood_trait = livelihood, travel_trait = travel,
               essence_traits_choice = essence,
               abilities = [], gameplay_sliders = [], skill_init_overflow = [], skillsets = []\<rparr>"
  show ?thesis
  proof (cases "initialize_abilities cfg ?p")
    case (Inl e)
    with assms show ?thesis by (simp add: Player_init_def py_bind_def)
  next
    case p1: (Inr p1)
    show ?thesis
    proof (cases "initialize_skillsets cfg p1")
      case (Inl e)
      with assms p1 show ?thesis by (simp add: Player_init_def py_bind_def)
    next
      case p2: (Inr p2)
      from assms p1 p2 have p: "p = age_alter_sliders cfg p2"
        by (simp add: Player_init_def py_bind_def)
      then have "abilities p = abilities p2" by (simp add: age_alter_sliders_def)
      with initialize_skillsets_abilities [OF p2] have "abilities p = abilities p1" by simp
      with initialize_abilities_result [OF p1] show ?thesis
        by (simp add: ability_names_def boundary_check_floor_le_ceiling
            compute_age_modifiers_bounds)
    qed
  qed
qed


lemma compute_size_modifiers_total:
  assumes "Height sz \<noteq> 0"
  shows "\<exists>mods. compute_size_modifiers sz ability_name = Inr mods"
  using assms by (simp add: compute_size_modifiers_def Let_def py_truediv_def py_bind_def)

lemma size_alter_loop_total:
  assumes "Height sz \<noteq> 0"
  shows "\<exists>al'. size_alter_loop sz al = Inr al'"
proof (induction al)
  case Nil
  then show ?case by simp
next
  case (Cons nr al)
  obtain n r where nr: "nr = (n, r)" by (cases nr) auto
  from compute_size_modifiers_total [OF assms, of n] obtain mods where
    "compute_size_modifiers sz n = Inr mods" by blast
  with Cons.IH nr show ?case by (auto simp add: py_bind_def)
qed

lemma size_alter_abilities_total:
  assumes "Height (size_p p) \<noteq> 0"
  shows "\<exists>p'. size_alter_abilities p = Inr p' \<and> skillsets p' = skillsets p"
proof -
  from size_alter_loop_total [OF assms, of "abilities p"] obtain al' where
    "size_alter_loop (size_p p) (abilities p) = Inr al'" by blast
  then show ?thesis by (simp add: size_alter_abilities_def py_bind_def)
qed

lemma trait_ability_step_total:
  assumes "fst entry \<in> set (ability_names p)"
  shows "\<exists>p'. trait_ability_step trait entry p = Inr p' \<and> skillsets p' = skillsets p"
proof -
  from assms obtain r where "dict_get (abilities p) (fst entry) = Some r"
    using dict_get_present [of "fst entry" "abilities p"] by (auto simp add: ability_names_def)
  then show ?thesis by (simp add: trait_ability_step_def Let_def)
qed

lemma trait_slider_step_total:
  assumes "fst entry \<in> set (slider_names p)"
  shows "\<exists>p'. trait_slider_step entry p = Inr p' \<and> skillsets p' = skillsets p"
proof -
  from assms obtain r where "dict_get (gameplay_sliders p) (fst entry) = Some r"
    using dict_get_present [of "fst entry" "gameplay_sliders p"] by (auto simp add: slider_names_def)
  then show ?thesis by (simp add: trait_slider_step_def Let_def)
qed

lemma impose_trait_total:
  assumes known: "traits_known cfg [trait]"
    and inv: "ordered_abilities p" "ability_names p = BASE_ABILITIES @ ESSENCE_ABILITIES"
      "slider_names p = SLIDER_VALUES" "skillsets p = []"
  shows "\<exists>p'. impose_trait cfg trait p = Inr p' \<and> ordered_abilities p'
           \<and> ability_names p' = BASE_ABILITIES @ ESSENCE_ABILITIES
           \<and> slider_names p' = SLIDER_VALUES \<and> skillsets p' = []"
proof (cases "dict_get (TRAIT_MODIFIERS cfg) trait")
  case None
  with inv show ?thesis by (simp add: impose_trait_def)
next
  case (Some tm)
  let ?I = "\<lambda>q. ordered_abilities q \<and> ability_names q = BASE_ABILITIES @ ESSENCE_ABILITIES
                \<and> slider_names q = SLIDER_VALUES \<and> skillsets q = []"
  from known Some have ka: "\<forall>entry\<in>set (Abilities tm). fst entry \<in> set (BASE_ABILITIES @ ESSENCE_ABILITIES)"
    and ks: "\<forall>entry\<in>set (Sliders tm). fst entry \<in> set SLIDER_VALUES"
    by (simp_all add: traits_known_def list_all_iff)
  have "\<exists>p1. for_each (trait_ability_step trait) (Abilities tm) p = Inr p1 \<and> ?I p1"
  proof (rule for_each_total [where I = ?I])
    show "?I p" using inv by simp
  next
    fix entry q assume e: "entry \<in> set (Abilities tm)" and q: "?I q"
    with ka have "fst entry \<in> set (ability_names q)" by simp
    from trait_ability_step_total [OF this, of trait] obtain q' where
      q': "trait_ability_step trait entry q = Inr q'" "skillsets q' = skillsets q" by blast
    from trait_ability_step_result [OF q'(1)] q q'
    show "\<exists>q'. trait_ability_step trait entry q = Inr q' \<and> ?I q'" by simp
  qed
  then obtain p1 where p1: "for_each (trait_ability_step trait) (Abilities tm) p = Inr p1" "?I p1"
    by blast
  have "\<exists>p2. for_each trait_slider_step (Sliders tm) p1 = Inr p2 \<and> ?I p2"
  proof (rule for_each_total [where I = ?I])
    show "?I p1" using p1(2) .
  next
    fix entry q assume e: "entry \<in> set (Sliders tm)" and q: "?I q"
    with ks have "fst entry \<in> set (slider_names q)" by simp
    from trait_slider_step_total [OF this] obtain q' where
      q': "trait_slider_step entry q = Inr q'" "skillsets q' = skillsets q" by blast
    from trait_slider_step_result [OF q'(1)] q q'
    show "\<exists>q'. trait_slider_step entry q = Inr q' \<and> ?I q'" by simp
  qed
  with Some p1(1) show ?thesis by (simp add: impose_trait_def py_bind_def)
qed

lemma impose_trait_ability_modifiers_total:
  assumes known: "traits_known cfg (selected_traits p)"
    and inv: "ordered_abilities p" "ability_names p = BASE_ABILITIES @ ESSENCE_ABILITIES"
      "slider_names p = SLIDER_VALUES" "skillsets p = []"
  shows "\<exists>p'. impose_trait_ability_modifiers cfg p = Inr p' \<and> skillsets p' = []"
proof -
  let ?I = "\<lambda>q. ordered_abilities q \<and> ability_names q = BASE_ABILITIES @ ESSENCE_ABILITIES
                \<and> slider_names q = SLIDER_VALUES \<and> skillsets q = []"
  have "\<exists>p'. for_each (impose_trait cfg) (selected_traits p) p = Inr p' \<and> ?I p'"
  proof (rule for_each_total [where I = ?I])
    show "?I p" using inv by simp
  next
    fix trait q assume t: "trait \<in> set (selected_traits p)" and q: "?I q"
    with known have "traits_known cfg [trait]"
      by (simp add: traits_known_def list_all_iff)
    from impose_trait_total [OF this] q
    show "\<exists>q'. impose_trait cfg trait q = Inr q' \<and> ?I q'" by simp
  qed
  then show ?thesis by (auto simp add: impose_trait_ability_modifiers_def)
qed


lemma initialize_abilities_total:
  assumes "Height (size_p p) \<noteq> 0" and "traits_known cfg (selected_traits p)"
    and "skillsets p = []"
  shows "\<exists>p'. initialize_abilities cfg p = Inr p' \<and> skillsets p' = []"
proof -
  let ?p0 = "p\<lparr>abilities := baseline_abilities, gameplay_sliders := baseline_sliders\<rparr>"
  let ?p1 = "genetically_alter_abilities cfg ?p0"
  have g: "ability_names ?p1 = BASE_ABILITIES @ ESSENCE_ABILITIES"
    "slider_names ?p1 = SLIDER_VALUES" "size_p ?p1 = size_p p"
    "selected_traits ?p1 = selected_traits p"
    using genetically_alter_abilities_names [of cfg ?p0]
    by (simp_all add: ability_names_def slider_names_def baseline_ability_names
        baseline_slider_names selected_traits_def)
  have s1: "skillsets ?p1 = []"
    using assms(3) by (simp add: genetically_alter_abilities_def)
  from size_alter_abilities_total [of ?p1] assms(1) g(3) obtain p2 where
    p2: "size_alter_abilities ?p1 = Inr p2" "skillsets p2 = skillsets ?p1" by auto
  from size_alter_abilities_result [OF p2(1)] g have r2: "ordered_abilities p2"
    "ability_names p2 = BASE_ABILITIES @ ESSENCE_ABILITIES" "slider_names p2 = SLIDER_VALUES"
    "selected_traits p2 = selected_traits p"
    by simp_all
  from p2(2) s1 have s2: "skillsets p2 = []" by simp
  from assms(2) r2(4) have "traits_known cfg (selected_traits p2)" by simp
  from impose_trait_ability_modifiers_total [OF this r2(1) r2(2) r2(3) s2] obtain p3 where
    p3: "impose_trait_ability_modifiers cfg p2 = Inr p3" "skillsets p3 = []" by blast
  have "skillsets (age_alter_abilities (rebase_sliders p3)) = []"
    using p3(2) by (simp add: age_alter_abilities_def rebase_sliders_def)
  with p2(1) p3(1) show ?thesis
    by (simp add: initialize_abilities_def Let_def py_bind_def)
qed

text \<open>
  The construction completes whenever the height is not zero and the selected traits
  refer to abilities and sliders that exist.
\<close>

lemma Player_init_total:
  assumes "Height sz \<noteq> 0"
    and "traits_known cfg ([physical, mental, social, livelihood, travel] @ essence)"
  shows "\<exists>p. Player_init cfg nm g physical mental social livelihood travel essence sz bd eye = Inr p"
proof -
  let ?p = "\<lparr>player_name = nm, birthdate = bd, eye_color = eye, size_p = sz, genetics = g,
               physical_trait = physical, mental_trait = mental, social_trait = social,
               livelihood_trait = livelihood, travel_trait = travel,
               essence_traits_choice = essence,
               abilities = [], gameplay_sliders = [], skill_init_overflow = [], skillsets = []\<rparr>"
  have "\<exists>p1. initialize_abilities cfg ?p = Inr p1 \<and> skillsets p1 = []"
    by (rule initialize_abilities_total) (use assms in \<open>simp_all add: selected_traits_def\<close>)
  then obtain p1 where p1: "initialize_abilities cfg ?p = Inr p1" "skillsets p1 = []" by blast
  from initialize_skillsets_total [OF p1(2), of cfg] obtain p2 where
    "initialize_skillsets cfg p1 = Inr p2" by blast
  with p1(1) show ?thesis by (simp add: Player_init_def py_bind_def)
qed

theorem Player_init_abilities_bracketed_witness:
  "\<exists>p. Player_init example_config ''Ada'' example_genetics ''Juggernaut'' ''Strategist''
          ''Diplomat'' ''Artisan'' ''Wayfinder''
          [''Ironclad Will'', ''Memory Palace'', ''Beastkin'', ''Runic Aegis'']
          \<lparr>Height = 71, Weight = 175\<rparr> \<lparr>Year = 850, Month = 3\<rparr> ''grey'' = Inr p
       \<and> list_all (\<lambda>(ability_name, r). floor_r r \<le> current r \<and> current r \<le> ceiling_r r)
             (abilities p)
       \<and> map fst (abilities p) = BASE_ABILITIES @ ESSENCE_ABILITIES"
proof -
  have h: "Height \<lparr>Height = 71, Weight = 175\<rparr> \<noteq> 0" by simp
  have k: "traits_known example_config
             ([''Juggernaut'', ''Strategist'', ''Diplomat'', ''Artisan'', ''Wayfinder'']
              @ [''Ironclad Will'', ''Memory Palace'', ''Beastkin'', ''Runic Aegis''])"
    by (simp add: traits_known_def example_config_def dict_get_def BASE_ABILITIES_def
        ESSENCE_ABILITIES_def SLIDER_VALUES_def)
  from Player_init_total [OF h k] obtain p where
    p: "Player_init example_config ''Ada'' example_genetics ''Juggernaut'' ''Strategist''
          ''Diplomat'' ''Artisan'' ''Wayfinder''
          [''Ironclad Will'', ''Memory Palace'', ''Beastkin'', ''Runic Aegis'']
          \<lparr>Height = 71, Weight = 175\<rparr> \<lparr>Year = 850, Month = 3\<rparr> ''grey'' = Inr p"
    by blast
  from Player_init_abilities_bracketed [OF p] p show ?thesis by blast
qed

section \<open>The trait stage as a whole\<close>










section \<open>The skill seeding as a whole\<close>

























end
